theory Spec2Isabelle
  imports Main "HOL-Library.Sublist" "HOL-Library.AList"
begin

section \<open>Python values and the operations the integration applies to them\<close>

text \<open>
  The integration handles what \<open>resp.json()\<close> returns: \<open>None\<close>, booleans, integers,
  strings, lists and dicts. A dict is the list of its items in insertion order (keys are
  distinct in a parsed JSON object). A \<open>string\<close> is read as a sequence of code points
  below 256. JSON numbers with a fraction are outside the model.
\<close>

datatype pyval =
    PNone
  | PBool bool
  | PInt int
  | PStr string
  | PList "pyval list"
  | PDict "(string \<times> pyval) list"

text \<open>
  The exceptions that can travel through the code. \<open>ClientError\<close> stands for
  \<open>aiohttp.ClientError\<close> and its subclasses, \<open>TimeoutError\<close> for
  \<open>asyncio.TimeoutError\<close>, \<open>JSONDecodeError\<close> for a body that is not JSON,
  \<open>UnicodeDecodeError\<close> for a body whose bytes do not decode as text.
  \<open>Exception\<close> carries its message; \<open>UpdateFailed\<close> carries the exception whose text
  it quotes.
\<close>

datatype error =
    ClientError
  | TimeoutError
  | JSONDecodeError
  | UnicodeDecodeError
  | KeyError
  | IndexError
  | TypeError
  | AttributeError
  | Exception string
  | UpdateFailed error

definition ebind :: "error + 'a \<Rightarrow> ('a \<Rightarrow> error + 'b) \<Rightarrow> error + 'b" where
  "ebind m f = (case m of Inl e \<Rightarrow> Inl e | Inr x \<Rightarrow> f x)"

text \<open>Decimal rendering of integers, as \<open>str\<close> and f-strings produce it.\<close>

definition digit_char :: "nat \<Rightarrow> char" where
  "digit_char d = char_of (48 + d)"

fun str_nat :: "nat \<Rightarrow> string" where
  "str_nat n = (if n < 10 then [digit_char n] else str_nat (n div 10) @ [digit_char (n mod 10)])"

declare str_nat.simps [simp del]

definition str_int :: "int \<Rightarrow> string" where
  "str_int i = (if i < 0 then CHR ''-'' # str_nat (nat (- i)) else str_nat (nat i))"

text \<open>
  \<open>str(v)\<close>, also what an f-string field \<open>{v}\<close> renders. On lists and dicts \<open>str\<close> is
  the interpreter's \<open>repr\<close>, which is not part of this repository: it is the parameter
  \<open>repr\<close>.
\<close>

definition py_str :: "(pyval \<Rightarrow> string) \<Rightarrow> pyval \<Rightarrow> string" where
  "py_str repr v =
     (case v of
        PNone \<Rightarrow> ''None''
      | PBool b \<Rightarrow> (if b then ''True'' else ''False'')
      | PInt i \<Rightarrow> str_int i
      | PStr s \<Rightarrow> s
      | _ \<Rightarrow> repr v)"

text \<open>\<open>d.get(k, dflt)\<close>: only a dict has \<open>get\<close>.\<close>

definition dict_get :: "(string \<times> pyval) list \<Rightarrow> string \<Rightarrow> pyval \<Rightarrow> pyval" where
  "dict_get kvs k dflt = (case map_of kvs k of None \<Rightarrow> dflt | Some v \<Rightarrow> v)"

definition py_get :: "pyval \<Rightarrow> string \<Rightarrow> pyval \<Rightarrow> error + pyval" where
  "py_get d k dflt =
     (case d of
        PDict kvs \<Rightarrow> Inr (dict_get kvs k dflt)
      | _ \<Rightarrow> Inl AttributeError)"

text \<open>\<open>d[k]\<close> with a string key \<open>k\<close>.\<close>

definition py_getitem :: "pyval \<Rightarrow> string \<Rightarrow> error + pyval" where
  "py_getitem d k =
     (case d of
        PDict kvs \<Rightarrow> (case map_of kvs k of None \<Rightarrow> Inl KeyError | Some v \<Rightarrow> Inr v)
      | _ \<Rightarrow> Inl TypeError)"

text \<open>\<open>k in v\<close> with a string \<open>k\<close>: a key of a dict, a part of a string, an element of a list.\<close>

definition py_in :: "string \<Rightarrow> pyval \<Rightarrow> error + bool" where
  "py_in k v =
     (case v of
        PDict kvs \<Rightarrow> Inr (map_of kvs k \<noteq> None)
      | PStr s \<Rightarrow> Inr (sublist k s)
      | PList xs \<Rightarrow> Inr (PStr k \<in> set xs)
      | _ \<Rightarrow> Inl TypeError)"

text \<open>The elements a \<open>for\<close> loop (or \<open>enumerate\<close>) draws from a value.\<close>

definition py_iter :: "pyval \<Rightarrow> error + pyval list" where
  "py_iter v =
     (case v of
        PList xs \<Rightarrow> Inr xs
      | PDict kvs \<Rightarrow> Inr (map (\<lambda>kv. PStr (fst kv)) kvs)
      | PStr s \<Rightarrow> Inr (map (\<lambda>c. PStr [c]) s)
      | _ \<Rightarrow> Inl TypeError)"

text \<open>\<open>len(v)\<close>.\<close>

definition py_len :: "pyval \<Rightarrow> error + nat" where
  "py_len v =
     (case v of
        PList xs \<Rightarrow> Inr (length xs)
      | PDict kvs \<Rightarrow> Inr (length kvs)
      | PStr s \<Rightarrow> Inr (length s)
      | _ \<Rightarrow> Inl TypeError)"

text \<open>\<open>v[i]\<close> with a non-negative integer \<open>i\<close>; a JSON dict has no integer key.\<close>

definition py_index :: "pyval \<Rightarrow> nat \<Rightarrow> error + pyval" where
  "py_index v i =
     (case v of
        PList xs \<Rightarrow> (if i < length xs then Inr (xs ! i) else Inl IndexError)
      | PStr s \<Rightarrow> (if i < length s then Inr (PStr [s ! i]) else Inl IndexError)
      | PDict kvs \<Rightarrow> Inl KeyError
      | _ \<Rightarrow> Inl TypeError)"

text \<open>Truth value of a value in a condition.\<close>

definition py_truthy :: "pyval \<Rightarrow> bool" where
  "py_truthy v =
     (case v of
        PNone \<Rightarrow> False
      | PBool b \<Rightarrow> b
      | PInt i \<Rightarrow> i \<noteq> 0
      | PStr s \<Rightarrow> s \<noteq> []
      | PList xs \<Rightarrow> xs \<noteq> []
      | PDict kvs \<Rightarrow> kvs \<noteq> [])"

text \<open>
  \<open>str.lower()\<close> on code points below 256: the letters A to Z and the capital letters of
  the Latin-1 block (192 to 222 without the multiplication sign 215) move up by 32.
\<close>

definition lower_char :: "char \<Rightarrow> char" where
  "lower_char c =
     (let n = (of_char c :: nat)
      in if (65 \<le> n \<and> n \<le> 90) \<or> (192 \<le> n \<and> n \<le> 222 \<and> n \<noteq> 215)
         then char_of (n + 32) else c)"

definition lower :: "string \<Rightarrow> string" where
  "lower s = map lower_char s"

text \<open>\<open>v.lower()\<close>: only a string has \<open>lower\<close>.\<close>

definition py_lower :: "pyval \<Rightarrow> error + string" where
  "py_lower v = (case v of PStr s \<Rightarrow> Inr (lower s) | _ \<Rightarrow> Inl AttributeError)"

section \<open>The HTTP exchange\<close>

text \<open>
  What one \<open>GET {PARCEL_API_URL}/shipments\<close> produced: either the exception raised by
  the request (\<open>Inl\<close>), or a response with its status, what \<open>await resp.json()\<close>
  returns or raises, and what \<open>await resp.text()\<close> returns or raises. Log output is not
  modelled.
\<close>

record http_response =
  resp_status :: nat
  resp_json :: "error + pyval"
  resp_text :: "error + string"

section \<open>The packaged integration: \<open>custom_components/hass-parcel/sensor.py\<close>\<close>

subsection \<open>ParcelApiClient\<close>

definition get_shipments :: "error + http_response \<Rightarrow> error + pyval" where
  "get_shipments fetched =
     ebind fetched (\<lambda>resp.
       if resp_status resp \<noteq> 200
       then Inl (Exception (''Error fetching shipments: '' @ str_nat (resp_status resp)))
       else ebind (resp_json resp) (\<lambda>data. py_get data ''shipments'' (PList [])))"


subsection \<open>ParcelDataUpdateCoordinator\<close>

text \<open>
  The two attributes of the host's coordinator base class that the sensor reads:
  \<open>coordinator.data\<close> and \<open>coordinator.last_update_success\<close>.
\<close>

record ParcelDataUpdateCoordinator =
  duc_data :: pyval
  last_update_success :: bool

definition async_update_data :: "error + http_response \<Rightarrow> error + pyval" where
  "async_update_data fetched =
     (case get_shipments fetched of
        Inl err \<Rightarrow> Inl (UpdateFailed err)
      | Inr shipments \<Rightarrow> Inr shipments)"

text \<open>
  Modelled from the spec: the refresh of the host's \<open>DataUpdateCoordinator\<close> base class
  (\<open>async_refresh\<close>, \<open>async_request_refresh\<close>), which is host code and not part of the
  repository. Section 4.2: it calls the update method; on success it replaces the dataset
  and marks success; on failure it logs, leaves the dataset untouched and marks failure,
  rather than raising. A fresh coordinator holds no data and counts as successful.
\<close>

definition DataUpdateCoordinator_init :: ParcelDataUpdateCoordinator where
  "DataUpdateCoordinator_init = \<lparr>duc_data = PNone, last_update_success = True\<rparr>"

definition DataUpdateCoordinator_async_refresh ::
  "error + http_response \<Rightarrow> ParcelDataUpdateCoordinator \<Rightarrow> error + ParcelDataUpdateCoordinator" where
  "DataUpdateCoordinator_async_refresh fetched coordinator =
     (case async_update_data fetched of
        Inl err \<Rightarrow> Inr (coordinator\<lparr>last_update_success := False\<rparr>)
      | Inr shipments \<Rightarrow> Inr (coordinator\<lparr>duc_data := shipments, last_update_success := True\<rparr>))"

subsection \<open>ParcelDeliverySensor\<close>

text \<open>
  The colour chain of \<open>update_attributes\<close>: \<open>status\<close> is the lowered status string,
  \<open>p in status\<close> is \<^const>\<open>sublist\<close>.
\<close>

definition color_chain :: "string \<Rightarrow> string" where
  "color_chain status =
     (if sublist ''delivered'' status then ''green''
      else if sublist ''transit'' status then ''blue''
      else if sublist ''exception'' status \<or> sublist ''failed'' status then ''red''
      else if sublist ''pending'' status \<or> sublist ''pre-transit'' status then ''orange''
      else ''grey'')"

text \<open>The colour of a status string: \<open>.lower()\<close>, then the chain.\<close>

definition status_color :: "string \<Rightarrow> string" where
  "status_color raw = color_chain (lower raw)"


record ParcelDeliverySensor =
  idx :: nat
  shipment :: pyval
  attr_unique_id :: string
  attr_name :: string
  attr_icon :: string
  attr_native_value :: pyval
  attr_extra_state_attributes :: "(string \<times> pyval) list"

text \<open>
  \<open>update_attributes\<close> reads the coordinator's data at the sensor's index. When a read
  raises, the model returns the exception alone.
\<close>

definition update_attributes ::
  "ParcelDataUpdateCoordinator \<Rightarrow> ParcelDeliverySensor \<Rightarrow> error + ParcelDeliverySensor" where
  "update_attributes coordinator self =
     ebind (py_len (duc_data coordinator)) (\<lambda>n.
     ebind (if idx self < n then py_index (duc_data coordinator) (idx self) else Inr (PDict []))
       (\<lambda>shipment.
     ebind (py_get shipment ''status'' (PStr ''unknown'')) (\<lambda>native_value.
     ebind (py_get shipment ''name'' (PStr ''Unknown'')) (\<lambda>a_name.
     ebind (py_get shipment ''carrier'' (PDict [])) (\<lambda>carrier.
     ebind (py_get carrier ''name'' (PStr ''Unknown'')) (\<lambda>a_carrier.
     ebind (py_get shipment ''tracking_number'' (PStr ''Unknown'')) (\<lambda>a_tracking_number.
     ebind (py_get shipment ''status'' (PStr ''Unknown'')) (\<lambda>a_status.
     ebind (py_get shipment ''last_update'' (PStr ''Unknown'')) (\<lambda>a_last_update.
     ebind (py_get shipment ''estimated_delivery'' (PStr ''Unknown'')) (\<lambda>a_estimated_delivery.
     ebind (py_get shipment ''from_location'' (PStr ''Unknown'')) (\<lambda>a_from_location.
     ebind (py_get shipment ''to_location'' (PStr ''Unknown'')) (\<lambda>a_to_location.
     ebind (py_get shipment ''id'' (PStr ''Unknown'')) (\<lambda>a_shipment_id.
     ebind (py_get shipment ''status'' (PStr [])) (\<lambda>raw.
     ebind (py_lower raw) (\<lambda>status.
       Inr (self\<lparr>attr_native_value := native_value,
                  attr_extra_state_attributes :=
                    [(''name'', a_name),
                     (''carrier'', a_carrier),
                     (''tracking_number'', a_tracking_number),
                     (''status'', a_status),
                     (''last_update'', a_last_update),
                     (''estimated_delivery'', a_estimated_delivery),
                     (''from_location'', a_from_location),
                     (''to_location'', a_to_location),
                     (''shipment_id'', a_shipment_id),
                     (''status_color'', PStr (color_chain status))]\<rparr>))))))))))))))))"

definition ParcelDeliverySensor_init ::
  "(pyval \<Rightarrow> string) \<Rightarrow> ParcelDataUpdateCoordinator \<Rightarrow> nat \<Rightarrow> pyval
     \<Rightarrow> error + ParcelDeliverySensor" where
  "ParcelDeliverySensor_init repr coordinator i shipment0 =
     ebind (py_get shipment0 ''id'' (PInt (int i))) (\<lambda>sid.
     ebind (py_get shipment0 ''name'' (PStr (''#'' @ str_nat (i + 1)))) (\<lambda>nm.
       update_attributes coordinator
         \<lparr>idx = i,
          shipment = shipment0,
          attr_unique_id = ''parcel_delivery_'' @ py_str repr sid,
          attr_name = ''Parcel Delivery '' @ py_str repr nm,
          attr_icon = ''mdi:package-variant'',
          attr_native_value = PNone,
          attr_extra_state_attributes = []\<rparr>))"

text \<open>\<open>available\<close>: the \<open>and\<close> does not evaluate \<open>len\<close> after a failed refresh.\<close>

definition available :: "ParcelDataUpdateCoordinator \<Rightarrow> ParcelDeliverySensor \<Rightarrow> error + bool" where
  "available coordinator self =
     (if last_update_success coordinator
      then ebind (py_len (duc_data coordinator)) (\<lambda>n. Inr (idx self < n))
      else Inr False)"

definition ParcelDeliverySensor_async_update ::
  "error + http_response \<Rightarrow> ParcelDataUpdateCoordinator \<Rightarrow> ParcelDeliverySensor
     \<Rightarrow> error + ParcelDataUpdateCoordinator \<times> ParcelDeliverySensor" where
  "ParcelDeliverySensor_async_update fetched coordinator self =
     ebind (DataUpdateCoordinator_async_refresh fetched coordinator) (\<lambda>coordinator'.
     ebind (py_len (duc_data coordinator')) (\<lambda>n.
       if idx self < n
       then ebind (py_index (duc_data coordinator') (idx self)) (\<lambda>sh.
            ebind (update_attributes coordinator' (self\<lparr>shipment := sh\<rparr>)) (\<lambda>self'.
              Inr (coordinator', self')))
       else Inr (coordinator', self)))"

text \<open>The entities \<open>async_setup_entry\<close> adds: one sensor per position of the data.\<close>

fun enumerate_sensors ::
  "(pyval \<Rightarrow> string) \<Rightarrow> ParcelDataUpdateCoordinator \<Rightarrow> nat \<Rightarrow> pyval list
     \<Rightarrow> error + ParcelDeliverySensor list" where
  "enumerate_sensors repr coordinator i [] = Inr []"
| "enumerate_sensors repr coordinator i (sh # rest) =
     ebind (ParcelDeliverySensor_init repr coordinator i sh) (\<lambda>sensor.
     ebind (enumerate_sensors repr coordinator (Suc i) rest) (\<lambda>sensors.
       Inr (sensor # sensors)))"

definition async_setup_entry ::
  "(pyval \<Rightarrow> string) \<Rightarrow> error + http_response
     \<Rightarrow> error + ParcelDataUpdateCoordinator \<times> ParcelDeliverySensor list" where
  "async_setup_entry repr fetched =
     ebind (DataUpdateCoordinator_async_refresh fetched DataUpdateCoordinator_init)
       (\<lambda>coordinator.
         if \<not> py_truthy (duc_data coordinator) then Inr (coordinator, [])
         else ebind (py_iter (duc_data coordinator)) (\<lambda>shipments.
              ebind (enumerate_sensors repr coordinator 0 shipments) (\<lambda>entities.
                Inr (coordinator, entities))))"

section \<open>The platform module: \<open>sensor.py\<close>\<close>

subsection \<open>ParcelDataCoordinator\<close>

text \<open>
  \<open>data\<close> is the coordinator's dict from shipment id to shipment. \<open>throttle_last\<close> is
  the time stamp the \<open>Throttle\<close> decorator keeps on the coordinator, in microseconds.
\<close>

record ParcelDataCoordinator =
  data :: "(string \<times> pyval) list"
  throttle_last :: "int option"

definition ParcelDataCoordinator_init :: ParcelDataCoordinator where
  "ParcelDataCoordinator_init = \<lparr>data = [], throttle_last = None\<rparr>"

definition DEFAULT_SCAN_INTERVAL :: int where
  "DEFAULT_SCAN_INTERVAL = 30 * 60 * 1000000"

text \<open>
  The dict comprehension \<open>{str(shipment["id"]): shipment for shipment in ...}\<close>: a later
  shipment replaces an earlier one with the same key, and the first \<open>shipment["id"]\<close>
  that raises ends the comprehension.
\<close>

fun shipments_by_id ::
  "(pyval \<Rightarrow> string) \<Rightarrow> pyval list \<Rightarrow> (string \<times> pyval) list
     \<Rightarrow> error + (string \<times> pyval) list" where
  "shipments_by_id repr [] acc = Inr acc"
| "shipments_by_id repr (sh # rest) acc =
     ebind (py_getitem sh ''id'') (\<lambda>sid.
       shipments_by_id repr rest (AList.update (py_str repr sid) sh acc))"

text \<open>\<open>except (aiohttp.ClientError, asyncio.TimeoutError)\<close>.\<close>

definition caught :: "error \<Rightarrow> bool" where
  "caught e = (e = ClientError \<or> e = TimeoutError)"

text \<open>
  The body of \<open>async_refresh\<close>, below its decorator. On a status other than 200 the
  arguments of the log call are evaluated, \<open>await resp.text()\<close> among them, inside the
  \<open>try\<close>.
\<close>

definition async_refresh_body ::
  "(pyval \<Rightarrow> string) \<Rightarrow> error + http_response \<Rightarrow> ParcelDataCoordinator
     \<Rightarrow> error + ParcelDataCoordinator" where
  "async_refresh_body repr fetched self =
     (case ebind fetched (\<lambda>resp.
             if resp_status resp = 200
             then ebind (resp_json resp) (\<lambda>d.
                  ebind (py_get d ''shipments'' (PList [])) (\<lambda>v.
                  ebind (py_iter v) (\<lambda>shipments.
                  ebind (shipments_by_id repr shipments []) (\<lambda>m.
                    Inr (self\<lparr>data := m\<rparr>)))))
             else ebind (resp_text resp) (\<lambda>body. Inr self))
      of Inl e \<Rightarrow> (if caught e then Inr self else Inl e)
       | Inr self' \<Rightarrow> Inr self')"

text \<open>
  Modelled from the spec: the host's \<open>Throttle\<close> decorator, which is host code and not
  part of the repository. Glossary: a minimum-interval gate preventing redundant fetches.
  The first call runs the method; a later call runs it only when more than \<open>min_time\<close>
  has passed since the last call that ran, and otherwise returns without running it. The
  stamp is set when the method has returned. \<open>now\<close> is the clock at the call, \<open>fin\<close>
  the clock when the method has returned.
\<close>

definition Throttle ::
  "int \<Rightarrow> (ParcelDataCoordinator \<Rightarrow> error + ParcelDataCoordinator) \<Rightarrow> int \<Rightarrow> int
     \<Rightarrow> ParcelDataCoordinator \<Rightarrow> error + ParcelDataCoordinator" where
  "Throttle min_time method now fin self =
     (if (case throttle_last self of None \<Rightarrow> True | Some t \<Rightarrow> now - t > min_time)
      then ebind (method self) (\<lambda>self'. Inr (self'\<lparr>throttle_last := Some fin\<rparr>))
      else Inr self)"

definition async_refresh ::
  "(pyval \<Rightarrow> string) \<Rightarrow> error + http_response \<Rightarrow> int \<Rightarrow> int
     \<Rightarrow> ParcelDataCoordinator \<Rightarrow> error + ParcelDataCoordinator" where
  "async_refresh repr fetched now fin self =
     Throttle DEFAULT_SCAN_INTERVAL (async_refresh_body repr fetched) now fin self"

text \<open>The handler of the \<open>refresh\<close> service registered by \<open>async_setup_platform\<close>.\<close>

definition async_refresh_parcels ::
  "(pyval \<Rightarrow> string) \<Rightarrow> error + http_response \<Rightarrow> int \<Rightarrow> int
     \<Rightarrow> ParcelDataCoordinator \<Rightarrow> error + ParcelDataCoordinator" where
  "async_refresh_parcels repr fetched now fin coordinator =
     async_refresh repr fetched now fin coordinator"

subsection \<open>ParcelSensor\<close>

text \<open>
  The sensor keeps a reference to the coordinator; every property takes the coordinator's
  current state as an argument.
\<close>

record ParcelSensor =
  parcel_id :: string
  name :: string
  unique_id :: string

definition parcel_data :: "ParcelDataCoordinator \<Rightarrow> string \<Rightarrow> pyval" where
  "parcel_data coordinator pid =
     (case map_of (data coordinator) pid of None \<Rightarrow> PDict [] | Some sh \<Rightarrow> sh)"

definition ParcelSensor_init ::
  "(pyval \<Rightarrow> string) \<Rightarrow> ParcelDataCoordinator \<Rightarrow> string \<Rightarrow> string \<Rightarrow> error + ParcelSensor" where
  "ParcelSensor_init repr coordinator pid name_prefix =
     ebind (py_get (parcel_data coordinator pid) ''carrier'' (PStr [])) (\<lambda>carrier.
     ebind (py_get (parcel_data coordinator pid) ''tracking_number'' (PStr []))
       (\<lambda>tracking_number.
         Inr \<lparr>parcel_id = pid,
              name = name_prefix @ '' '' @ py_str repr carrier @ '' ''
                     @ py_str repr tracking_number,
              unique_id = ''parcel_'' @ pid\<rparr>))"

definition state :: "ParcelDataCoordinator \<Rightarrow> ParcelSensor \<Rightarrow> error + pyval" where
  "state coordinator self =
     py_get (parcel_data coordinator (parcel_id self)) ''status'' (PStr ''unknown'')"

definition extra_state_attributes ::
  "ParcelDataCoordinator \<Rightarrow> ParcelSensor \<Rightarrow> error + (string \<times> pyval) list" where
  "extra_state_attributes coordinator self =
     (let pd = parcel_data coordinator (parcel_id self)
      in if py_truthy pd
         then ebind (py_get pd ''carrier'' PNone) (\<lambda>carrier.
              ebind (py_get pd ''tracking_number'' PNone) (\<lambda>tracking_number.
              ebind (py_get pd ''status'' PNone) (\<lambda>status.
              ebind (py_get pd ''status_description'' PNone) (\<lambda>status_description.
              ebind (py_get pd ''estimated_delivery'' PNone) (\<lambda>estimated_delivery.
              ebind (py_get pd ''last_update'' PNone) (\<lambda>last_update.
              ebind (py_in ''location'' pd) (\<lambda>has_location.
              ebind (if has_location then py_get pd ''location'' PNone else Inr PNone)
                (\<lambda>location.
              ebind (py_in ''tracking_history'' pd) (\<lambda>has_history.
              ebind (if has_history then py_get pd ''tracking_history'' PNone else Inr PNone)
                (\<lambda>tracking_history.
                Inr ([(''carrier'', carrier),
                      (''tracking_number'', tracking_number),
                      (''status'', status),
                      (''status_description'', status_description),
                      (''estimated_delivery'', estimated_delivery),
                      (''last_update'', last_update)]
                     @ (if has_location then [(''location'', location)] else [])
                     @ (if has_history then [(''tracking_history'', tracking_history)] else []))
              ))))))))))
         else Inr [])"

text \<open>The polling path: the host calls \<open>async_update\<close> of every sensor on its timer.\<close>

definition ParcelSensor_async_update ::
  "(pyval \<Rightarrow> string) \<Rightarrow> error + http_response \<Rightarrow> int \<Rightarrow> int
     \<Rightarrow> ParcelDataCoordinator \<Rightarrow> error + ParcelDataCoordinator" where
  "ParcelSensor_async_update repr fetched now fin coordinator =
     async_refresh repr fetched now fin coordinator"

section \<open>Notions used in the statements\<close>

text \<open>
  A fetch failure: the request raised a network error or timed out, or the response
  status is not 200.
\<close>

definition fetch_failure :: "error + http_response \<Rightarrow> bool" where
  "fetch_failure fetched =
     (case fetched of
        Inl e \<Rightarrow> e = ClientError \<or> e = TimeoutError
      | Inr resp \<Rightarrow> resp_status resp \<noteq> 200)"

text \<open>
  A failure of the fetch inside a refresh: a fetch failure as above, or a network error or
  timeout raised while the body of a 200 response is read.
\<close>

definition refresh_failure :: "error + http_response \<Rightarrow> bool" where
  "refresh_failure fetched =
     (case fetched of
        Inl e \<Rightarrow> e = ClientError \<or> e = TimeoutError
      | Inr resp \<Rightarrow>
          resp_status resp \<noteq> 200
          \<or> resp_json resp = Inl ClientError \<or> resp_json resp = Inl TimeoutError)"

text \<open>
  The text of an error response can be read for the log: the status is 200 (the text is
  not read), or reading the text returns, or it raises a network error or a timeout.
\<close>

definition error_text_readable :: "error + http_response \<Rightarrow> bool" where
  "error_text_readable fetched =
     (case fetched of
        Inl e \<Rightarrow> True
      | Inr resp \<Rightarrow>
          resp_status resp = 200
          \<or> (case resp_text resp of
                Inl e \<Rightarrow> e = ClientError \<or> e = TimeoutError
              | Inr body \<Rightarrow> True))"

text \<open>
  A successful fetch of the shipment list \<open>ships\<close>: status 200 and a JSON object whose
  \<open>shipments\<close> member is that list, or which has no such member when the list is empty.
\<close>

definition successful_fetch :: "error + http_response \<Rightarrow> pyval list \<Rightarrow> bool" where
  "successful_fetch fetched ships =
     (case fetched of
        Inl e \<Rightarrow> False
      | Inr resp \<Rightarrow>
          resp_status resp = 200
          \<and> (case resp_json resp of
                Inr (PDict body) \<Rightarrow> dict_get body ''shipments'' (PList []) = PList ships
              | _ \<Rightarrow> False))"

definition is_dict :: "pyval \<Rightarrow> bool" where
  "is_dict v = (case v of PDict kvs \<Rightarrow> True | _ \<Rightarrow> False)"

text \<open>The key under which the comprehension files a shipment, when it has an id.\<close>

definition shipment_key :: "(pyval \<Rightarrow> string) \<Rightarrow> pyval \<Rightarrow> string option" where
  "shipment_key repr sh =
     (case py_getitem sh ''id'' of Inl e \<Rightarrow> None | Inr sid \<Rightarrow> Some (py_str repr sid))"

definition has_id :: "pyval \<Rightarrow> bool" where
  "has_id sh = (case py_getitem sh ''id'' of Inl e \<Rightarrow> False | Inr sid \<Rightarrow> True)"

text \<open>
  A shipment list keyed by id, in the spec's words: under each key, the last shipment of
  the list with that key.
\<close>

definition keyed_by_id :: "(pyval \<Rightarrow> string) \<Rightarrow> pyval list \<Rightarrow> string \<Rightarrow> pyval option" where
  "keyed_by_id repr ships k = List.find (\<lambda>sh. shipment_key repr sh = Some k) (rev ships)"

text \<open>Every entry of the coordinator's dict is a dict.\<close>

definition dict_values :: "ParcelDataCoordinator \<Rightarrow> bool" where
  "dict_values coordinator = list_all (\<lambda>kv. is_dict (snd kv)) (data coordinator)"

text \<open>The gate of \<open>Throttle\<close> is open: no call has run yet, or the interval has passed.\<close>

definition throttle_open :: "ParcelDataCoordinator \<Rightarrow> int \<Rightarrow> bool" where
  "throttle_open coordinator now =
     (case throttle_last coordinator of
        None \<Rightarrow> True
      | Some t \<Rightarrow> now - t > DEFAULT_SCAN_INTERVAL)"

text \<open>
  The examples below render no list and no dict as a string, so \<open>repr\<close> is never
  called in them; they pass this function for it.
\<close>

definition repr_unused :: "pyval \<Rightarrow> string" where
  "repr_unused v = []"

section \<open>Facts about the Python operations\<close>




section \<open>Status colour\<close>



lemma ebind_Inl [simp]: "ebind (Inl e) f = Inl e"
  by (simp add: ebind_def)

lemma ebind_Inr [simp]: "ebind (Inr x) f = f x"
  by (simp add: ebind_def)

lemma py_get_PDict [simp]: "py_get (PDict kvs) k dflt = Inr (dict_get kvs k dflt)"
  by (simp add: py_get_def)

section \<open>Fetch failures\<close>



lemma fetch_failure_refresh_failure: "fetch_failure fetched \<Longrightarrow> refresh_failure fetched"
  by (cases fetched) (simp_all add: fetch_failure_def refresh_failure_def)

lemma async_refresh_body_failure:
  assumes "refresh_failure fetched" "error_text_readable fetched"
  shows "async_refresh_body repr fetched self = Inr self"
proof (cases fetched)
  case (Inl e)
  with assms(1) show ?thesis
    by (auto simp: refresh_failure_def async_refresh_body_def caught_def)
next
  case (Inr resp)
  show ?thesis
  proof (cases "resp_status resp = 200")
    case True
    with Inr assms(1) have "resp_json resp = Inl ClientError \<or> resp_json resp = Inl TimeoutError"
      by (simp add: refresh_failure_def)
    with Inr True show ?thesis
      by (auto simp: async_refresh_body_def caught_def)
  next
    case False
    with Inr assms(2) show ?thesis
      by (cases "resp_text resp") (auto simp: error_text_readable_def async_refresh_body_def caught_def)
  qed
qed

lemma async_refresh_failure:
  assumes "refresh_failure fetched" "error_text_readable fetched"
  shows "async_refresh repr fetched now fin self =
           Inr (if throttle_open self now then self\<lparr>throttle_last := Some fin\<rparr> else self)"
  using async_refresh_body_failure [OF assms]
  by (simp add: async_refresh_def Throttle_def throttle_open_def split: option.splits)

lemma coordinator_refresh_failure:
  assumes "refresh_failure fetched"
  shows "DataUpdateCoordinator_async_refresh fetched coordinator =
           Inr (coordinator\<lparr>last_update_success := False\<rparr>)"
proof -
  from assms have "\<exists>err. get_shipments fetched = Inl err"
    by (cases fetched) (auto simp: refresh_failure_def get_shipments_def)
  then show ?thesis
    by (auto simp: DataUpdateCoordinator_async_refresh_def async_update_data_def)
qed

section \<open>Refresh after a failed fetch\<close>

text \<open>
  C2 as stated fails for \<open>ParcelDataCoordinator\<close>. After a response with status 500 the
  coordinator is exactly what a successful fetch of the same shipment leaves behind, and
  its sensor still reports the shipment's status: the class keeps no record of a failed
  refresh and \<open>ParcelSensor\<close> defines no availability, so nothing becomes unavailable. And
  when the text of the 500 response does not decode, the \<open>UnicodeDecodeError\<close> raised
  while the log call is prepared is not caught and leaves the refresh call.
\<close>

theorem refresh_failure_counterexample:
  "async_refresh repr_unused
     (Inr \<lparr>resp_status = 500, resp_json = Inl JSONDecodeError,
           resp_text = Inr ''Internal Server Error''\<rparr>)
     0 1
     \<lparr>data = [(''42'', PDict [(''id'', PInt 42), (''status'', PStr ''delivered'')])],
      throttle_last = None\<rparr>
     = Inr \<lparr>data = [(''42'', PDict [(''id'', PInt 42), (''status'', PStr ''delivered'')])],
            throttle_last = Some 1\<rparr>
   \<and> async_refresh repr_unused
       (Inr \<lparr>resp_status = 200,
             resp_json = Inr (PDict [(''shipments'',
               PList [PDict [(''id'', PInt 42), (''status'', PStr ''delivered'')]])]),
             resp_text = Inr []\<rparr>)
       0 1
       \<lparr>data = [(''42'', PDict [(''id'', PInt 42), (''status'', PStr ''delivered'')])],
        throttle_last = None\<rparr>
     = Inr \<lparr>data = [(''42'', PDict [(''id'', PInt 42), (''status'', PStr ''delivered'')])],
            throttle_last = Some 1\<rparr>
   \<and> state
       \<lparr>data = [(''42'', PDict [(''id'', PInt 42), (''status'', PStr ''delivered'')])],
        throttle_last = Some 1\<rparr>
       \<lparr>parcel_id = ''42'', name = ''Parcel  '', unique_id = ''parcel_42''\<rparr>
     = Inr (PStr ''delivered'')
   \<and> async_refresh repr_unused
       (Inr \<lparr>resp_status = 500, resp_json = Inl JSONDecodeError,
             resp_text = Inl UnicodeDecodeError\<rparr>)
       0 1
       \<lparr>data = [(''42'', PDict [(''id'', PInt 42), (''status'', PStr ''delivered'')])],
        throttle_last = None\<rparr>
     = Inl UnicodeDecodeError"
  by (intro conjI; code_simp)

text \<open>
  C2, amended. After a fetch failure (a network error or a timeout, raised by the request
  or while the body is read, or a status other than 200) the refresh of
  \<open>ParcelDataUpdateCoordinator\<close> returns normally, keeps the dataset, and marks the update
  as failed, so that every \<open>ParcelDeliverySensor\<close> reports that it is not available. The
  refresh of \<open>ParcelDataCoordinator\<close> returns normally and keeps the dataset whenever the
  text of an error response can be read for the log; its sensors then read the same state
  and attributes as before the refresh.
\<close>

theorem refresh_failure_keeps_dataset:
  assumes "refresh_failure fetched"
  shows "(\<exists>coordinator'.
            DataUpdateCoordinator_async_refresh fetched coordinator = Inr coordinator'
            \<and> duc_data coordinator' = duc_data coordinator
            \<and> \<not> last_update_success coordinator'
            \<and> available coordinator' sensor = Inr False)
         \<and> (error_text_readable fetched \<longrightarrow>
              (\<exists>self'. async_refresh repr fetched now fin self = Inr self'
                 \<and> data self' = data self
                 \<and> state self' psensor = state self psensor
                 \<and> extra_state_attributes self' psensor = extra_state_attributes self psensor))"
proof (intro conjI impI)
  show "\<exists>coordinator'.
            DataUpdateCoordinator_async_refresh fetched coordinator = Inr coordinator'
            \<and> duc_data coordinator' = duc_data coordinator
            \<and> \<not> last_update_success coordinator'
            \<and> available coordinator' sensor = Inr False"
    by (simp add: coordinator_refresh_failure [OF assms] available_def)
next
  assume r: "error_text_readable fetched"
  show "\<exists>self'. async_refresh repr fetched now fin self = Inr self'
          \<and> data self' = data self
          \<and> state self' psensor = state self psensor
          \<and> extra_state_attributes self' psensor = extra_state_attributes self psensor"
    by (simp add: async_refresh_failure [OF assms r] state_def extra_state_attributes_def
          parcel_data_def)
qed

theorem refresh_failure_keeps_dataset_witness:
  "refresh_failure
     (Inr \<lparr>resp_status = 500, resp_json = Inl JSONDecodeError,
           resp_text = Inr ''Internal Server Error''\<rparr>)
   \<and> error_text_readable
       (Inr \<lparr>resp_status = 500, resp_json = Inl JSONDecodeError,
             resp_text = Inr ''Internal Server Error''\<rparr>)
   \<and> async_refresh repr_unused
        (Inr \<lparr>resp_status = 500, resp_json = Inl JSONDecodeError,
              resp_text = Inr ''Internal Server Error''\<rparr>)
        0 1 \<lparr>data = [(''42'', PDict [(''id'', PInt 42)])], throttle_last = None\<rparr>
       = Inr \<lparr>data = [(''42'', PDict [(''id'', PInt 42)])], throttle_last = Some 1\<rparr>
   \<and> DataUpdateCoordinator_async_refresh
        (Inr \<lparr>resp_status = 500, resp_json = Inl JSONDecodeError,
              resp_text = Inr ''Internal Server Error''\<rparr>)
        \<lparr>duc_data = PList [PDict [(''id'', PInt 42)]], last_update_success = True\<rparr>
       = Inr \<lparr>duc_data = PList [PDict [(''id'', PInt 42)]], last_update_success = False\<rparr>
   \<and> refresh_failure
       (Inr \<lparr>resp_status = 200, resp_json = Inl TimeoutError, resp_text = Inr []\<rparr>)
   \<and> async_refresh repr_unused
        (Inr \<lparr>resp_status = 200, resp_json = Inl TimeoutError, resp_text = Inr []\<rparr>)
        0 1 \<lparr>data = [(''42'', PDict [(''id'', PInt 42)])], throttle_last = None\<rparr>
       = Inr \<lparr>data = [(''42'', PDict [(''id'', PInt 42)])], throttle_last = Some 1\<rparr>"
proof -
  let ?f = "Inr \<lparr>resp_status = 500, resp_json = Inl JSONDecodeError,
                 resp_text = Inr ''Internal Server Error''\<rparr>"
  let ?g = "Inr \<lparr>resp_status = 200, resp_json = Inl TimeoutError, resp_text = Inr []\<rparr>"
  let ?self = "\<lparr>data = [(''42'', PDict [(''id'', PInt 42)])], throttle_last = None\<rparr>"
  let ?c = "\<lparr>duc_data = PList [PDict [(''id'', PInt 42)]], last_update_success = True\<rparr>"
  have f: "refresh_failure ?f"
    by (simp add: refresh_failure_def)
  have ft: "error_text_readable ?f"
    by (simp add: error_text_readable_def)
  have g: "refresh_failure ?g"
    by (simp add: refresh_failure_def)
  have gt: "error_text_readable ?g"
    by (simp add: error_text_readable_def)
  have a: "async_refresh repr_unused ?f 0 1 ?self = Inr (?self\<lparr>throttle_last := Some 1\<rparr>)"
    by code_simp
  have b: "async_refresh repr_unused ?g 0 1 ?self = Inr (?self\<lparr>throttle_last := Some 1\<rparr>)"
    by code_simp
  have d: "DataUpdateCoordinator_async_refresh ?f ?c = Inr (?c\<lparr>last_update_success := False\<rparr>)"
    by code_simp
  from refresh_failure_keeps_dataset
         [OF f, where repr = repr_unused and now = 0 and fin = 1 and self = ?self
            and coordinator = ?c]
       refresh_failure_keeps_dataset
         [OF g, where repr = repr_unused and now = 0 and fin = 1 and self = ?self
            and coordinator = ?c]
       f ft g gt a b d
  show ?thesis by simp
qed

lemma find_snoc:
  "List.find P (xs @ [x]) =
     (case List.find P xs of None \<Rightarrow> (if P x then Some x else None) | Some y \<Rightarrow> Some y)"
  by (induction xs) simp_all

lemma has_id_key: "has_id sh \<Longrightarrow> \<exists>sid. py_getitem sh ''id'' = Inr sid \<and> shipment_key repr sh = Some (py_str repr sid)"
  by (cases "py_getitem sh ''id''") (simp_all add: has_id_def shipment_key_def)

lemma has_id_is_dict: "has_id sh \<Longrightarrow> is_dict sh"
  by (cases sh) (simp_all add: has_id_def py_getitem_def is_dict_def)

lemma set_update_subset: "set (AList.update k v al) \<subseteq> insert (k, v) (set al)"
  by (induction al) auto

lemma shipments_by_id_keyed:
  "list_all has_id ships \<Longrightarrow>
   \<exists>m. shipments_by_id repr ships acc = Inr m
       \<and> map_of m = (\<lambda>k. case keyed_by_id repr ships k of None \<Rightarrow> map_of acc k | Some sh \<Rightarrow> Some sh)
       \<and> (distinct (map fst acc) \<longrightarrow> distinct (map fst m))
       \<and> (list_all (\<lambda>kv. is_dict (snd kv)) acc \<longrightarrow> list_all (\<lambda>kv. is_dict (snd kv)) m)"
proof (induction ships arbitrary: acc)
  case Nil
  then show ?case by (simp add: keyed_by_id_def)
next
  case (Cons sh rest)
  from Cons.prems have h: "has_id sh" and r: "list_all has_id rest" by simp_all
  from has_id_key [OF h] obtain sid where
    sid: "py_getitem sh ''id'' = Inr sid" and key: "shipment_key repr sh = Some (py_str repr sid)"
    by blast
  let ?acc = "AList.update (py_str repr sid) sh acc"
  from Cons.IH [OF r, of ?acc] obtain m where
    m: "shipments_by_id repr rest ?acc = Inr m"
    and mo: "map_of m = (\<lambda>k. case keyed_by_id repr rest k of None \<Rightarrow> map_of ?acc k | Some s \<Rightarrow> Some s)"
    and di: "distinct (map fst ?acc) \<longrightarrow> distinct (map fst m)"
    and dv: "list_all (\<lambda>kv. is_dict (snd kv)) ?acc \<longrightarrow> list_all (\<lambda>kv. is_dict (snd kv)) m"
    by blast
  have run: "shipments_by_id repr (sh # rest) acc = Inr m"
    by (simp add: sid m)
  have lookup: "map_of m = (\<lambda>k. case keyed_by_id repr (sh # rest) k of None \<Rightarrow> map_of acc k | Some s \<Rightarrow> Some s)"
  proof
    fix k
    show "map_of m k = (case keyed_by_id repr (sh # rest) k of None \<Rightarrow> map_of acc k | Some s \<Rightarrow> Some s)"
      by (simp add: mo keyed_by_id_def find_snoc key AList.update_conv' split: option.splits)
  qed
  have d1: "distinct (map fst acc) \<longrightarrow> distinct (map fst m)"
    using di by (simp add: AList.distinct_update)
  have d2: "list_all (\<lambda>kv. is_dict (snd kv)) acc \<longrightarrow> list_all (\<lambda>kv. is_dict (snd kv)) m"
  proof
    assume a: "list_all (\<lambda>kv. is_dict (snd kv)) acc"
    have "list_all (\<lambda>kv. is_dict (snd kv)) ?acc"
      unfolding list_all_iff
    proof
      fix kv assume "kv \<in> set ?acc"
      then have "kv = (py_str repr sid, sh) \<or> kv \<in> set acc"
        using set_update_subset [of "py_str repr sid" sh acc] by auto
      then show "is_dict (snd kv)"
        using a has_id_is_dict [OF h] by (auto simp: list_all_iff)
    qed
    with dv show "list_all (\<lambda>kv. is_dict (snd kv)) m" by simp
  qed
  from run lookup d1 d2 show ?case by blast
qed

lemma successful_fetchD:
  assumes "successful_fetch fetched ships"
  obtains resp body where "fetched = Inr resp" "resp_status resp = 200"
    "resp_json resp = Inr (PDict body)" "dict_get body ''shipments'' (PList []) = PList ships"
proof -
  from assms obtain resp where r: "fetched = Inr resp"
    by (cases fetched) (simp_all add: successful_fetch_def)
  with assms have st: "resp_status resp = 200"
    by (simp add: successful_fetch_def)
  from assms r obtain v where v: "resp_json resp = Inr v"
    by (cases "resp_json resp") (simp_all add: successful_fetch_def)
  with assms r obtain body where b: "v = PDict body"
    by (cases v) (simp_all add: successful_fetch_def)
  from assms r v b have "dict_get body ''shipments'' (PList []) = PList ships"
    by (simp add: successful_fetch_def)
  with r st v b show thesis using that by blast
qed




lemma async_refresh_body_success:
  assumes "successful_fetch fetched ships" "list_all has_id ships"
  shows "\<exists>m. async_refresh_body repr fetched self = Inr (self\<lparr>data := m\<rparr>)
           \<and> map_of m = keyed_by_id repr ships
           \<and> distinct (map fst m)
           \<and> list_all (\<lambda>kv. is_dict (snd kv)) m"
proof -
  from assms(1) obtain resp body where f: "fetched = Inr resp" "resp_status resp = 200"
    "resp_json resp = Inr (PDict body)" "dict_get body ''shipments'' (PList []) = PList ships"
    by (rule successful_fetchD)
  from shipments_by_id_keyed [OF assms(2), of repr "[]"] obtain m where
    m: "shipments_by_id repr ships [] = Inr m"
    and mo: "map_of m = (\<lambda>k. case keyed_by_id repr ships k of None \<Rightarrow> map_of [] k | Some sh \<Rightarrow> Some sh)"
    and di: "distinct (map fst m)"
    and dv: "list_all (\<lambda>kv. is_dict (snd kv)) m"
    by auto
  have "map_of m = keyed_by_id repr ships"
  proof
    fix k show "map_of m k = keyed_by_id repr ships k"
      by (simp add: mo split: option.splits)
  qed
  moreover have "async_refresh_body repr fetched self = Inr (self\<lparr>data := m\<rparr>)"
    by (simp add: async_refresh_body_def f py_iter_def m)
  ultimately show ?thesis using di dv by blast
qed

lemma coordinator_refresh_success:
  assumes "successful_fetch fetched ships"
  shows "DataUpdateCoordinator_async_refresh fetched coordinator =
           Inr (coordinator\<lparr>duc_data := PList ships, last_update_success := True\<rparr>)"
proof -
  from assms obtain resp body where f: "fetched = Inr resp" "resp_status resp = 200"
    "resp_json resp = Inr (PDict body)" "dict_get body ''shipments'' (PList []) = PList ships"
    by (rule successful_fetchD)
  then show ?thesis
    by (simp add: DataUpdateCoordinator_async_refresh_def async_update_data_def get_shipments_def)
qed

lemma state_absent:
  "map_of (data coordinator) (parcel_id sensor) = None \<Longrightarrow>
   state coordinator sensor = Inr (PStr ''unknown'')
   \<and> extra_state_attributes coordinator sensor = Inr []"
  by (simp add: state_def extra_state_attributes_def parcel_data_def dict_get_def py_truthy_def)

section \<open>Refresh after a successful fetch\<close>




lemma async_refresh_throttled:
  "\<not> throttle_open coordinator now \<Longrightarrow> async_refresh repr fetched now fin coordinator = Inr coordinator"
  by (simp add: async_refresh_def Throttle_def throttle_open_def split: option.splits)

lemma async_refresh_open:
  "throttle_open coordinator now \<Longrightarrow>
   async_refresh repr fetched now fin coordinator =
     ebind (async_refresh_body repr fetched coordinator)
       (\<lambda>coordinator'. Inr (coordinator'\<lparr>throttle_last := Some fin\<rparr>))"
  by (simp add: async_refresh_def Throttle_def throttle_open_def split: option.splits)

section \<open>On-demand refresh\<close>

text \<open>
  C9. The handler of the \<open>refresh\<close> service and the polling path (\<open>async_update\<close> of a
  sensor) invoke the same operation, the throttled \<open>async_refresh\<close> of the coordinator:
  from the same coordinator state at the same time they give the same result. The
  throttle gates both alike: a call made within the minimum interval after the last
  refresh that ran returns without fetching and leaves the coordinator as it was, and a
  call made when the gate is open runs the refresh body and stamps the time.
\<close>

theorem on_demand_refresh_same_as_timer:
  "async_refresh_parcels repr fetched now fin coordinator
     = ParcelSensor_async_update repr fetched now fin coordinator
   \<and> (\<not> throttle_open coordinator now \<longrightarrow>
        ParcelSensor_async_update repr fetched now fin coordinator = Inr coordinator
        \<and> async_refresh_parcels repr fetched now fin coordinator = Inr coordinator)
   \<and> (throttle_open coordinator now \<longrightarrow>
        ParcelSensor_async_update repr fetched now fin coordinator
          = ebind (async_refresh_body repr fetched coordinator)
              (\<lambda>coordinator'. Inr (coordinator'\<lparr>throttle_last := Some fin\<rparr>))
        \<and> async_refresh_parcels repr fetched now fin coordinator
          = ebind (async_refresh_body repr fetched coordinator)
              (\<lambda>coordinator'. Inr (coordinator'\<lparr>throttle_last := Some fin\<rparr>)))
   \<and> (throttle_open coordinator now \<longleftrightarrow>
        (case throttle_last coordinator of
           None \<Rightarrow> True
         | Some t \<Rightarrow> now - t > 30 * 60 * 1000000))"
  by (simp add: async_refresh_parcels_def ParcelSensor_async_update_def
        async_refresh_throttled async_refresh_open)
     (simp add: throttle_open_def DEFAULT_SCAN_INTERVAL_def split: option.splits)

theorem on_demand_refresh_same_as_timer_witness:
  "\<not> throttle_open \<lparr>data = [], throttle_last = Some 1\<rparr> 1800000001
   \<and> async_refresh_parcels (\<lambda>v. [])
        (Inr \<lparr>resp_status = 200,
              resp_json = Inr (PDict [(''shipments'', PList [PDict [(''id'', PInt 7)]])]),
              resp_text = Inr []\<rparr>)
        1800000001 1800000002 \<lparr>data = [], throttle_last = Some 1\<rparr>
       = Inr \<lparr>data = [], throttle_last = Some 1\<rparr>
   \<and> throttle_open \<lparr>data = [], throttle_last = Some 1\<rparr> 1800000002
   \<and> async_refresh_parcels (\<lambda>v. [])
        (Inr \<lparr>resp_status = 200,
              resp_json = Inr (PDict [(''shipments'', PList [PDict [(''id'', PInt 7)]])]),
              resp_text = Inr []\<rparr>)
        1800000002 1800000003 \<lparr>data = [], throttle_last = Some 1\<rparr>
       = Inr \<lparr>data = [(''7'', PDict [(''id'', PInt 7)])], throttle_last = Some 1800000003\<rparr>
   \<and> ParcelSensor_async_update (\<lambda>v. [])
        (Inr \<lparr>resp_status = 200,
              resp_json = Inr (PDict [(''shipments'', PList [PDict [(''id'', PInt 7)]])]),
              resp_text = Inr []\<rparr>)
        1800000002 1800000003 \<lparr>data = [], throttle_last = Some 1\<rparr>
       = Inr \<lparr>data = [(''7'', PDict [(''id'', PInt 7)])], throttle_last = Some 1800000003\<rparr>"
proof -
  let ?f = "Inr \<lparr>resp_status = 200,
              resp_json = Inr (PDict [(''shipments'', PList [PDict [(''id'', PInt 7)]])]),
              resp_text = Inr []\<rparr>"
  let ?c = "\<lparr>data = [], throttle_last = Some 1\<rparr>"
  have closed: "\<not> throttle_open ?c 1800000001"
    by (simp add: throttle_open_def DEFAULT_SCAN_INTERVAL_def)
  have opened: "throttle_open ?c 1800000002"
    by (simp add: throttle_open_def DEFAULT_SCAN_INTERVAL_def)
  have body: "async_refresh_body (\<lambda>v. []) ?f ?c = Inr \<lparr>data = [(''7'', PDict [(''id'', PInt 7)])], throttle_last = Some 1\<rparr>"
    by code_simp
  from on_demand_refresh_same_as_timer [of "\<lambda>v. []" ?f 1800000001 1800000002 ?c]
       on_demand_refresh_same_as_timer [of "\<lambda>v. []" ?f 1800000002 1800000003 ?c]
       closed opened body
  show ?thesis by simp
qed

section \<open>Binding of a sensor to its shipment\<close>

text \<open>
  C4, evaluated on the code. \<open>async_setup_entry\<close> on the list [shipment 1 (Shoes,
  delivered), shipment 2 (Book, in transit)] creates the sensor with unique id
  \<open>parcel_delivery_1\<close> at index 0. After a refresh that returns the same two shipments in
  the other order, \<open>async_update\<close> of that sensor gives it the state and the attributes of
  shipment 2, the shipment now at index 0, while its unique id and name still are those of
  shipment 1.
\<close>

theorem sensor_follows_index_after_reorder:
  "async_setup_entry repr_unused
     (Inr \<lparr>resp_status = 200,
           resp_json = Inr (PDict [(''shipments'',
             PList [PDict [(''id'', PInt 1), (''name'', PStr ''Shoes''), (''status'', PStr ''delivered'')],
                    PDict [(''id'', PInt 2), (''name'', PStr ''Book''), (''status'', PStr ''in_transit'')]])]),
           resp_text = Inr []\<rparr>)
     = Inr (\<lparr>duc_data =
               PList [PDict [(''id'', PInt 1), (''name'', PStr ''Shoes''), (''status'', PStr ''delivered'')],
                      PDict [(''id'', PInt 2), (''name'', PStr ''Book''), (''status'', PStr ''in_transit'')]],
             last_update_success = True\<rparr>,
            [\<lparr>idx = 0,
              shipment = PDict [(''id'', PInt 1), (''name'', PStr ''Shoes''), (''status'', PStr ''delivered'')],
              attr_unique_id = ''parcel_delivery_1'',
              attr_name = ''Parcel Delivery Shoes'',
              attr_icon = ''mdi:package-variant'',
              attr_native_value = PStr ''delivered'',
              attr_extra_state_attributes =
                [(''name'', PStr ''Shoes''), (''carrier'', PStr ''Unknown''),
                 (''tracking_number'', PStr ''Unknown''), (''status'', PStr ''delivered''),
                 (''last_update'', PStr ''Unknown''), (''estimated_delivery'', PStr ''Unknown''),
                 (''from_location'', PStr ''Unknown''), (''to_location'', PStr ''Unknown''),
                 (''shipment_id'', PInt 1), (''status_color'', PStr ''green'')]\<rparr>,
             \<lparr>idx = 1,
              shipment = PDict [(''id'', PInt 2), (''name'', PStr ''Book''), (''status'', PStr ''in_transit'')],
              attr_unique_id = ''parcel_delivery_2'',
              attr_name = ''Parcel Delivery Book'',
              attr_icon = ''mdi:package-variant'',
              attr_native_value = PStr ''in_transit'',
              attr_extra_state_attributes =
                [(''name'', PStr ''Book''), (''carrier'', PStr ''Unknown''),
                 (''tracking_number'', PStr ''Unknown''), (''status'', PStr ''in_transit''),
                 (''last_update'', PStr ''Unknown''), (''estimated_delivery'', PStr ''Unknown''),
                 (''from_location'', PStr ''Unknown''), (''to_location'', PStr ''Unknown''),
                 (''shipment_id'', PInt 2), (''status_color'', PStr ''blue'')]\<rparr>])
   \<and> ParcelDeliverySensor_async_update
       (Inr \<lparr>resp_status = 200,
             resp_json = Inr (PDict [(''shipments'',
               PList [PDict [(''id'', PInt 2), (''name'', PStr ''Book''), (''status'', PStr ''in_transit'')],
                      PDict [(''id'', PInt 1), (''name'', PStr ''Shoes''), (''status'', PStr ''delivered'')]])]),
             resp_text = Inr []\<rparr>)
       \<lparr>duc_data =
          PList [PDict [(''id'', PInt 1), (''name'', PStr ''Shoes''), (''status'', PStr ''delivered'')],
                 PDict [(''id'', PInt 2), (''name'', PStr ''Book''), (''status'', PStr ''in_transit'')]],
        last_update_success = True\<rparr>
       \<lparr>idx = 0,
        shipment = PDict [(''id'', PInt 1), (''name'', PStr ''Shoes''), (''status'', PStr ''delivered'')],
        attr_unique_id = ''parcel_delivery_1'',
        attr_name = ''Parcel Delivery Shoes'',
        attr_icon = ''mdi:package-variant'',
        attr_native_value = PStr ''delivered'',
        attr_extra_state_attributes =
          [(''name'', PStr ''Shoes''), (''carrier'', PStr ''Unknown''),
           (''tracking_number'', PStr ''Unknown''), (''status'', PStr ''delivered''),
           (''last_update'', PStr ''Unknown''), (''estimated_delivery'', PStr ''Unknown''),
           (''from_location'', PStr ''Unknown''), (''to_location'', PStr ''Unknown''),
           (''shipment_id'', PInt 1), (''status_color'', PStr ''green'')]\<rparr>
     = Inr (\<lparr>duc_data =
               PList [PDict [(''id'', PInt 2), (''name'', PStr ''Book''), (''status'', PStr ''in_transit'')],
                      PDict [(''id'', PInt 1), (''name'', PStr ''Shoes''), (''status'', PStr ''delivered'')]],
             last_update_success = True\<rparr>,
            \<lparr>idx = 0,
             shipment = PDict [(''id'', PInt 2), (''name'', PStr ''Book''), (''status'', PStr ''in_transit'')],
             attr_unique_id = ''parcel_delivery_1'',
             attr_name = ''Parcel Delivery Shoes'',
             attr_icon = ''mdi:package-variant'',
             attr_native_value = PStr ''in_transit'',
             attr_extra_state_attributes =
               [(''name'', PStr ''Book''), (''carrier'', PStr ''Unknown''),
                (''tracking_number'', PStr ''Unknown''), (''status'', PStr ''in_transit''),
                (''last_update'', PStr ''Unknown''), (''estimated_delivery'', PStr ''Unknown''),
                (''from_location'', PStr ''Unknown''), (''to_location'', PStr ''Unknown''),
                (''shipment_id'', PInt 2), (''status_color'', PStr ''blue'')]\<rparr>)"
  by (rule conjI; code_simp)

section \<open>Availability of a sensor\<close>

text \<open>
  C5, evaluated on the code. \<open>async_setup_entry\<close> on the list [shipment 1, shipment 2]
  creates the sensor of shipment 1 at index 0 and the sensor of shipment 2 at index 1.
  After a successful refresh that returns shipment 2 alone, the sensor of shipment 1
  reports available although its shipment is gone, and the sensor of shipment 2 reports
  unavailable although its shipment is present: \<open>available\<close> compares the index with the
  length of the data.
\<close>

theorem available_follows_index_not_id:
  "async_setup_entry repr_unused
     (Inr \<lparr>resp_status = 200,
           resp_json = Inr (PDict [(''shipments'',
             PList [PDict [(''id'', PInt 1), (''status'', PStr ''delivered'')],
                    PDict [(''id'', PInt 2), (''status'', PStr ''in_transit'')]])]),
           resp_text = Inr []\<rparr>)
     = Inr (\<lparr>duc_data =
               PList [PDict [(''id'', PInt 1), (''status'', PStr ''delivered'')],
                      PDict [(''id'', PInt 2), (''status'', PStr ''in_transit'')]],
             last_update_success = True\<rparr>,
            [\<lparr>idx = 0,
              shipment = PDict [(''id'', PInt 1), (''status'', PStr ''delivered'')],
              attr_unique_id = ''parcel_delivery_1'',
              attr_name = ''Parcel Delivery #1'',
              attr_icon = ''mdi:package-variant'',
              attr_native_value = PStr ''delivered'',
              attr_extra_state_attributes =
                [(''name'', PStr ''Unknown''), (''carrier'', PStr ''Unknown''),
                 (''tracking_number'', PStr ''Unknown''), (''status'', PStr ''delivered''),
                 (''last_update'', PStr ''Unknown''), (''estimated_delivery'', PStr ''Unknown''),
                 (''from_location'', PStr ''Unknown''), (''to_location'', PStr ''Unknown''),
                 (''shipment_id'', PInt 1), (''status_color'', PStr ''green'')]\<rparr>,
             \<lparr>idx = 1,
              shipment = PDict [(''id'', PInt 2), (''status'', PStr ''in_transit'')],
              attr_unique_id = ''parcel_delivery_2'',
              attr_name = ''Parcel Delivery #2'',
              attr_icon = ''mdi:package-variant'',
              attr_native_value = PStr ''in_transit'',
              attr_extra_state_attributes =
                [(''name'', PStr ''Unknown''), (''carrier'', PStr ''Unknown''),
                 (''tracking_number'', PStr ''Unknown''), (''status'', PStr ''in_transit''),
                 (''last_update'', PStr ''Unknown''), (''estimated_delivery'', PStr ''Unknown''),
                 (''from_location'', PStr ''Unknown''), (''to_location'', PStr ''Unknown''),
                 (''shipment_id'', PInt 2), (''status_color'', PStr ''blue'')]\<rparr>])
   \<and> DataUpdateCoordinator_async_refresh
       (Inr \<lparr>resp_status = 200,
             resp_json = Inr (PDict [(''shipments'',
               PList [PDict [(''id'', PInt 2), (''status'', PStr ''in_transit'')]])]),
             resp_text = Inr []\<rparr>)
       \<lparr>duc_data =
          PList [PDict [(''id'', PInt 1), (''status'', PStr ''delivered'')],
                 PDict [(''id'', PInt 2), (''status'', PStr ''in_transit'')]],
        last_update_success = True\<rparr>
     = Inr \<lparr>duc_data = PList [PDict [(''id'', PInt 2), (''status'', PStr ''in_transit'')]],
            last_update_success = True\<rparr>
   \<and> available
       \<lparr>duc_data = PList [PDict [(''id'', PInt 2), (''status'', PStr ''in_transit'')]],
        last_update_success = True\<rparr>
       \<lparr>idx = 0,
        shipment = PDict [(''id'', PInt 1), (''status'', PStr ''delivered'')],
        attr_unique_id = ''parcel_delivery_1'',
        attr_name = ''Parcel Delivery #1'',
        attr_icon = ''mdi:package-variant'',
        attr_native_value = PStr ''delivered'',
        attr_extra_state_attributes =
          [(''name'', PStr ''Unknown''), (''carrier'', PStr ''Unknown''),
           (''tracking_number'', PStr ''Unknown''), (''status'', PStr ''delivered''),
           (''last_update'', PStr ''Unknown''), (''estimated_delivery'', PStr ''Unknown''),
           (''from_location'', PStr ''Unknown''), (''to_location'', PStr ''Unknown''),
           (''shipment_id'', PInt 1), (''status_color'', PStr ''green'')]\<rparr>
     = Inr True
   \<and> available
       \<lparr>duc_data = PList [PDict [(''id'', PInt 2), (''status'', PStr ''in_transit'')]],
        last_update_success = True\<rparr>
       \<lparr>idx = 1,
        shipment = PDict [(''id'', PInt 2), (''status'', PStr ''in_transit'')],
        attr_unique_id = ''parcel_delivery_2'',
        attr_name = ''Parcel Delivery #2'',
        attr_icon = ''mdi:package-variant'',
        attr_native_value = PStr ''in_transit'',
        attr_extra_state_attributes =
          [(''name'', PStr ''Unknown''), (''carrier'', PStr ''Unknown''),
           (''tracking_number'', PStr ''Unknown''), (''status'', PStr ''in_transit''),
           (''last_update'', PStr ''Unknown''), (''estimated_delivery'', PStr ''Unknown''),
           (''from_location'', PStr ''Unknown''), (''to_location'', PStr ''Unknown''),
           (''shipment_id'', PInt 2), (''status_color'', PStr ''blue'')]\<rparr>
     = Inr False"
  by (intro conjI; code_simp)

lemma update_attributes_dict:
  assumes len: "py_len (duc_data coordinator) = Inr n"
    and at: "(if idx self < n then py_index (duc_data coordinator) (idx self) else Inr (PDict []))
               = Inr (PDict kvs)"
    and carrier: "dict_get kvs ''carrier'' (PDict []) = PDict ckvs"
    and status: "dict_get kvs ''status'' (PStr []) = PStr st"
  shows "update_attributes coordinator self =
           Inr (self\<lparr>attr_native_value := dict_get kvs ''status'' (PStr ''unknown''),
                      attr_extra_state_attributes :=
                        [(''name'', dict_get kvs ''name'' (PStr ''Unknown'')),
                         (''carrier'', dict_get ckvs ''name'' (PStr ''Unknown'')),
                         (''tracking_number'', dict_get kvs ''tracking_number'' (PStr ''Unknown'')),
                         (''status'', dict_get kvs ''status'' (PStr ''Unknown'')),
                         (''last_update'', dict_get kvs ''last_update'' (PStr ''Unknown'')),
                         (''estimated_delivery'', dict_get kvs ''estimated_delivery'' (PStr ''Unknown'')),
                         (''from_location'', dict_get kvs ''from_location'' (PStr ''Unknown'')),
                         (''to_location'', dict_get kvs ''to_location'' (PStr ''Unknown'')),
                         (''shipment_id'', dict_get kvs ''id'' (PStr ''Unknown'')),
                         (''status_color'', PStr (status_color st))]\<rparr>)"
  unfolding update_attributes_def
  by (simp only: len at ebind_Inr py_get_PDict carrier status)
     (simp add: py_lower_def status_color_def)

lemma dict_get_Some: "map_of kvs k = Some v \<Longrightarrow> dict_get kvs k dflt = v"
  by (simp add: dict_get_def)

lemma dict_get_None: "map_of kvs k = None \<Longrightarrow> dict_get kvs k dflt = dflt"
  by (simp add: dict_get_def)

lemma status_color_In_Transit: "status_color ''In_Transit'' = ''blue''"
  by code_simp

lemma str_int_1: "str_int 1 = ''1''"
  by code_simp

lemma async_setup_entry_single:
  assumes f: "successful_fetch fetched [PDict kvs]"
    and carrier: "dict_get kvs ''carrier'' (PDict []) = PDict ckvs"
    and status: "dict_get kvs ''status'' (PStr []) = PStr st"
  shows "\<exists>sensor. async_setup_entry repr fetched =
           Inr (\<lparr>duc_data = PList [PDict kvs], last_update_success = True\<rparr>, [sensor])
         \<and> idx sensor = 0
         \<and> attr_native_value sensor = dict_get kvs ''status'' (PStr ''unknown'')
         \<and> map_of (attr_extra_state_attributes sensor) ''status_color'' = Some (PStr (status_color st))
         \<and> attr_name sensor =
             ''Parcel Delivery '' @ py_str repr (dict_get kvs ''name'' (PStr (''#'' @ str_nat 1)))"
proof -
  let ?c = "\<lparr>duc_data = PList [PDict kvs], last_update_success = True\<rparr>"
  let ?s0 = "\<lparr>idx = 0, shipment = PDict kvs,
              attr_unique_id = ''parcel_delivery_'' @ py_str repr (dict_get kvs ''id'' (PInt (int 0))),
              attr_name = ''Parcel Delivery ''
                          @ py_str repr (dict_get kvs ''name'' (PStr (''#'' @ str_nat (0 + 1)))),
              attr_icon = ''mdi:package-variant'',
              attr_native_value = PNone,
              attr_extra_state_attributes = []\<rparr>"
  have r: "DataUpdateCoordinator_async_refresh fetched DataUpdateCoordinator_init = Inr ?c"
    by (simp add: coordinator_refresh_success [OF f] DataUpdateCoordinator_init_def)
  have len: "py_len (duc_data ?c) = Inr 1"
    by (simp add: py_len_def)
  have at: "(if idx ?s0 < 1 then py_index (duc_data ?c) (idx ?s0) else Inr (PDict [])) = Inr (PDict kvs)"
    by (simp add: py_index_def)
  note u = update_attributes_dict [OF len at carrier status]
  have init: "ParcelDeliverySensor_init repr ?c 0 (PDict kvs) = update_attributes ?c ?s0"
    by (simp only: ParcelDeliverySensor_init_def py_get_PDict ebind_Inr)
  have t: "py_truthy (duc_data ?c)"
    by (simp add: py_truthy_def)
  have it: "py_iter (duc_data ?c) = Inr [PDict kvs]"
    by (simp add: py_iter_def)
  obtain sensor where s: "update_attributes ?c ?s0 = Inr sensor"
    and s1: "idx sensor = 0"
    and s2: "attr_native_value sensor = dict_get kvs ''status'' (PStr ''unknown'')"
    and s3: "map_of (attr_extra_state_attributes sensor) ''status_color'' = Some (PStr (status_color st))"
    and s4: "attr_name sensor =
             ''Parcel Delivery '' @ py_str repr (dict_get kvs ''name'' (PStr (''#'' @ str_nat 1)))"
    using u by simp
  have en: "enumerate_sensors repr ?c 0 [PDict kvs] = Inr [sensor]"
    by (simp only: enumerate_sensors.simps init s ebind_Inr)
  have "async_setup_entry repr fetched = Inr (?c, [sensor])"
    by (simp only: async_setup_entry_def r ebind_Inr t it en not_True_eq_False if_False)
  with s1 s2 s3 s4 show ?thesis by blast
qed

section \<open>The in-transit scenario\<close>

text \<open>
  C7 as stated fails: for the body \<open>{"shipments":[{"id":1,"status":"In_Transit"}]}\<close> the
  sensor's state is the status string as sent, \<open>In_Transit\<close>, not \<open>in_transit\<close>; the
  state of the platform module's sensor is the same string.
\<close>

theorem in_transit_state_counterexample:
  "async_setup_entry repr_unused
     (Inr \<lparr>resp_status = 200,
           resp_json = Inr (PDict [(''shipments'',
             PList [PDict [(''id'', PInt 1), (''status'', PStr ''In_Transit'')]])]),
           resp_text = Inr []\<rparr>)
     = Inr (\<lparr>duc_data = PList [PDict [(''id'', PInt 1), (''status'', PStr ''In_Transit'')]],
             last_update_success = True\<rparr>,
            [\<lparr>idx = 0,
              shipment = PDict [(''id'', PInt 1), (''status'', PStr ''In_Transit'')],
              attr_unique_id = ''parcel_delivery_1'',
              attr_name = ''Parcel Delivery #1'',
              attr_icon = ''mdi:package-variant'',
              attr_native_value = PStr ''In_Transit'',
              attr_extra_state_attributes =
                [(''name'', PStr ''Unknown''), (''carrier'', PStr ''Unknown''),
                 (''tracking_number'', PStr ''Unknown''), (''status'', PStr ''In_Transit''),
                 (''last_update'', PStr ''Unknown''), (''estimated_delivery'', PStr ''Unknown''),
                 (''from_location'', PStr ''Unknown''), (''to_location'', PStr ''Unknown''),
                 (''shipment_id'', PInt 1), (''status_color'', PStr ''blue'')]\<rparr>])
   \<and> PStr ''In_Transit'' \<noteq> PStr ''in_transit''
   \<and> async_refresh repr_unused
       (Inr \<lparr>resp_status = 200,
             resp_json = Inr (PDict [(''shipments'',
               PList [PDict [(''id'', PInt 1), (''status'', PStr ''In_Transit'')]])]),
             resp_text = Inr []\<rparr>)
       0 1 ParcelDataCoordinator_init
     = Inr \<lparr>data = [(''1'', PDict [(''id'', PInt 1), (''status'', PStr ''In_Transit'')])],
            throttle_last = Some 1\<rparr>
   \<and> state
       \<lparr>data = [(''1'', PDict [(''id'', PInt 1), (''status'', PStr ''In_Transit'')])],
        throttle_last = Some 1\<rparr>
       \<lparr>parcel_id = ''1'', name = ''Parcel  '', unique_id = ''parcel_1''\<rparr>
     = Inr (PStr ''In_Transit'')"
  by (intro conjI; code_simp)

text \<open>
  C7, amended. For a successful fetch whose list is one shipment with id 1 and status
  \<open>In_Transit\<close>, whatever its other fields as long as a carrier, if present, is an
  object: the sensor created for it has the state \<open>In_Transit\<close>, the status as sent, and
  the status colour blue; the platform module's sensor for id 1 has the state
  \<open>In_Transit\<close> as well.
\<close>

theorem in_transit_state_as_sent:
  assumes f: "successful_fetch fetched [PDict kvs]"
    and sid: "map_of kvs ''id'' = Some (PInt 1)"
    and st: "map_of kvs ''status'' = Some (PStr ''In_Transit'')"
    and carrier: "dict_get kvs ''carrier'' (PDict []) = PDict ckvs"
  shows "(\<exists>coordinator sensor.
            async_setup_entry repr fetched = Inr (coordinator, [sensor])
            \<and> attr_native_value sensor = PStr ''In_Transit''
            \<and> map_of (attr_extra_state_attributes sensor) ''status_color'' = Some (PStr ''blue''))
         \<and> (\<exists>self'. async_refresh repr fetched now fin ParcelDataCoordinator_init = Inr self'
               \<and> (\<forall>sensor. parcel_id sensor = ''1'' \<longrightarrow>
                      state self' sensor = Inr (PStr ''In_Transit'')))"
proof
  from async_setup_entry_single [OF f carrier dict_get_Some [OF st], of repr]
  show "\<exists>coordinator sensor.
            async_setup_entry repr fetched = Inr (coordinator, [sensor])
            \<and> attr_native_value sensor = PStr ''In_Transit''
            \<and> map_of (attr_extra_state_attributes sensor) ''status_color'' = Some (PStr ''blue'')"
    by (auto simp: dict_get_Some [OF st] status_color_In_Transit)
next
  have key: "shipment_key repr (PDict kvs) = Some ''1''"
    by (simp add: shipment_key_def py_getitem_def sid py_str_def str_int_1)
  have ids: "list_all has_id [PDict kvs]"
    by (simp add: has_id_def py_getitem_def sid)
  from async_refresh_body_success [OF f ids, of repr ParcelDataCoordinator_init] obtain m where
    body: "async_refresh_body repr fetched ParcelDataCoordinator_init
             = Inr (ParcelDataCoordinator_init\<lparr>data := m\<rparr>)"
    and mo: "map_of m = keyed_by_id repr [PDict kvs]"
    by blast
  let ?self' = "ParcelDataCoordinator_init\<lparr>data := m, throttle_last := Some fin\<rparr>"
  have run: "async_refresh repr fetched now fin ParcelDataCoordinator_init = Inr ?self'"
    by (simp add: async_refresh_def Throttle_def ParcelDataCoordinator_init_def body [unfolded ParcelDataCoordinator_init_def])
  have look: "map_of m ''1'' = Some (PDict kvs)"
    by (simp add: mo keyed_by_id_def key)
  have "\<forall>sensor. parcel_id sensor = ''1'' \<longrightarrow> state ?self' sensor = Inr (PStr ''In_Transit'')"
    by (simp add: state_def parcel_data_def look dict_get_Some [OF st])
  with run show "\<exists>self'. async_refresh repr fetched now fin ParcelDataCoordinator_init = Inr self'
               \<and> (\<forall>sensor. parcel_id sensor = ''1'' \<longrightarrow>
                      state self' sensor = Inr (PStr ''In_Transit''))"
    by blast
qed

theorem in_transit_state_as_sent_witness:
  "successful_fetch
     (Inr \<lparr>resp_status = 200,
           resp_json = Inr (PDict [(''shipments'',
             PList [PDict [(''id'', PInt 1), (''status'', PStr ''In_Transit''),
                           (''carrier'', PDict [(''name'', PStr ''UPS'')])]])]),
           resp_text = Inr []\<rparr>)
     [PDict [(''id'', PInt 1), (''status'', PStr ''In_Transit''),
             (''carrier'', PDict [(''name'', PStr ''UPS'')])]]
   \<and> (\<exists>coordinator sensor.
         async_setup_entry repr_unused
           (Inr \<lparr>resp_status = 200,
                 resp_json = Inr (PDict [(''shipments'',
                   PList [PDict [(''id'', PInt 1), (''status'', PStr ''In_Transit''),
                                 (''carrier'', PDict [(''name'', PStr ''UPS'')])]])]),
                 resp_text = Inr []\<rparr>)
           = Inr (coordinator, [sensor])
         \<and> attr_native_value sensor = PStr ''In_Transit''
         \<and> map_of (attr_extra_state_attributes sensor) ''status_color'' = Some (PStr ''blue''))"
proof -
  let ?kvs = "[(''id'', PInt 1), (''status'', PStr ''In_Transit''),
               (''carrier'', PDict [(''name'', PStr ''UPS'')])]"
  let ?f = "Inr \<lparr>resp_status = 200,
                 resp_json = Inr (PDict [(''shipments'', PList [PDict ?kvs])]),
                 resp_text = Inr []\<rparr>"
  have f: "successful_fetch ?f [PDict ?kvs]"
    by (simp add: successful_fetch_def dict_get_def)
  have sid: "map_of ?kvs ''id'' = Some (PInt 1)" by simp
  have st: "map_of ?kvs ''status'' = Some (PStr ''In_Transit'')" by simp
  have carrier: "dict_get ?kvs ''carrier'' (PDict []) = PDict [(''name'', PStr ''UPS'')]"
    by (simp add: dict_get_def)
  from in_transit_state_as_sent [OF f sid st carrier, of repr_unused] f
  show ?thesis by blast
qed

lemma update_attributes_keeps:
  assumes "update_attributes coordinator self = Inr self'"
  shows "attr_name self' = attr_name self \<and> attr_unique_id self' = attr_unique_id self
         \<and> idx self' = idx self"
  using assms unfolding update_attributes_def ebind_def
  by (auto split: sum.splits)

section \<open>Display name\<close>

text \<open>
  C8 as stated fails for the sensor of the packaged integration: for a shipment with
  carrier UPS and tracking number 1Z999 its name is \<open>Parcel Delivery #1\<close>, which holds
  neither the carrier nor the tracking number, and no configured prefix enters it.
\<close>

theorem display_name_counterexample:
  "ParcelDeliverySensor_init repr_unused
     \<lparr>duc_data = PList [PDict [(''id'', PInt 1), (''carrier'', PDict [(''name'', PStr ''UPS'')]),
                               (''tracking_number'', PStr ''1Z999''), (''status'', PStr ''delivered'')]],
      last_update_success = True\<rparr>
     0
     (PDict [(''id'', PInt 1), (''carrier'', PDict [(''name'', PStr ''UPS'')]),
             (''tracking_number'', PStr ''1Z999''), (''status'', PStr ''delivered'')])
     = Inr \<lparr>idx = 0,
            shipment = PDict [(''id'', PInt 1), (''carrier'', PDict [(''name'', PStr ''UPS'')]),
                              (''tracking_number'', PStr ''1Z999''), (''status'', PStr ''delivered'')],
            attr_unique_id = ''parcel_delivery_1'',
            attr_name = ''Parcel Delivery #1'',
            attr_icon = ''mdi:package-variant'',
            attr_native_value = PStr ''delivered'',
            attr_extra_state_attributes =
              [(''name'', PStr ''Unknown''), (''carrier'', PStr ''UPS''),
               (''tracking_number'', PStr ''1Z999''), (''status'', PStr ''delivered''),
               (''last_update'', PStr ''Unknown''), (''estimated_delivery'', PStr ''Unknown''),
               (''from_location'', PStr ''Unknown''), (''to_location'', PStr ''Unknown''),
               (''shipment_id'', PInt 1), (''status_color'', PStr ''green'')]\<rparr>
   \<and> \<not> sublist ''UPS'' ''Parcel Delivery #1''
   \<and> \<not> sublist ''1Z999'' ''Parcel Delivery #1''"
  by (intro conjI; code_simp)

text \<open>
  C8, amended. The name of the platform module's \<open>ParcelSensor\<close> for a shipment of the
  dataset is the configured prefix, the shipment's carrier and its tracking number, joined
  by single spaces, an absent field counting as the empty string. The name of a
  \<open>ParcelDeliverySensor\<close> is \<open>Parcel Delivery\<close>, a space, and the shipment's \<open>name\<close>
  field, or \<open>#\<close> and the position plus one when the shipment has no name.
\<close>

theorem display_name_of_sensors:
  "(map_of (data coordinator) pid = Some (PDict kvs) \<longrightarrow>
      ParcelSensor_init repr coordinator pid name_prefix =
        Inr \<lparr>parcel_id = pid,
             name = name_prefix @ '' '' @ py_str repr (dict_get kvs ''carrier'' (PStr []))
                    @ '' '' @ py_str repr (dict_get kvs ''tracking_number'' (PStr [])),
             unique_id = ''parcel_'' @ pid\<rparr>)
   \<and> (ParcelDeliverySensor_init repr coordinator' i (PDict kvs') = Inr sensor \<longrightarrow>
        attr_name sensor =
          ''Parcel Delivery '' @ py_str repr (dict_get kvs' ''name'' (PStr (''#'' @ str_nat (i + 1)))))"
proof (intro conjI impI)
  assume "map_of (data coordinator) pid = Some (PDict kvs)"
  then show "ParcelSensor_init repr coordinator pid name_prefix =
        Inr \<lparr>parcel_id = pid,
             name = name_prefix @ '' '' @ py_str repr (dict_get kvs ''carrier'' (PStr []))
                    @ '' '' @ py_str repr (dict_get kvs ''tracking_number'' (PStr [])),
             unique_id = ''parcel_'' @ pid\<rparr>"
    by (simp add: ParcelSensor_init_def parcel_data_def)
next
  assume "ParcelDeliverySensor_init repr coordinator' i (PDict kvs') = Inr sensor"
  then have "update_attributes coordinator'
       \<lparr>idx = i, shipment = PDict kvs',
        attr_unique_id = ''parcel_delivery_'' @ py_str repr (dict_get kvs' ''id'' (PInt (int i))),
        attr_name = ''Parcel Delivery ''
                    @ py_str repr (dict_get kvs' ''name'' (PStr (''#'' @ str_nat (i + 1)))),
        attr_icon = ''mdi:package-variant'',
        attr_native_value = PNone,
        attr_extra_state_attributes = []\<rparr> = Inr sensor"
    by (simp only: ParcelDeliverySensor_init_def py_get_PDict ebind_Inr)
  from update_attributes_keeps [OF this]
  show "attr_name sensor =
          ''Parcel Delivery '' @ py_str repr (dict_get kvs' ''name'' (PStr (''#'' @ str_nat (i + 1))))"
    by simp
qed

theorem display_name_of_sensors_witness:
  "map_of (data \<lparr>data = [(''1'', PDict [(''id'', PInt 1), (''carrier'', PStr ''UPS''),
                                          (''tracking_number'', PStr ''1Z999'')])],
                 throttle_last = None\<rparr>) ''1''
     = Some (PDict [(''id'', PInt 1), (''carrier'', PStr ''UPS''), (''tracking_number'', PStr ''1Z999'')])
   \<and> ParcelSensor_init repr_unused
       \<lparr>data = [(''1'', PDict [(''id'', PInt 1), (''carrier'', PStr ''UPS''),
                               (''tracking_number'', PStr ''1Z999'')])],
        throttle_last = None\<rparr> ''1'' ''Parcel''
     = Inr \<lparr>parcel_id = ''1'', name = ''Parcel UPS 1Z999'', unique_id = ''parcel_1''\<rparr>
   \<and> ParcelDeliverySensor_init repr_unused
       \<lparr>duc_data = PList [PDict [(''id'', PInt 1), (''name'', PStr ''Shoes'')]],
        last_update_success = True\<rparr> 0
       (PDict [(''id'', PInt 1), (''name'', PStr ''Shoes'')])
     = Inr \<lparr>idx = 0,
            shipment = PDict [(''id'', PInt 1), (''name'', PStr ''Shoes'')],
            attr_unique_id = ''parcel_delivery_1'',
            attr_name = ''Parcel Delivery Shoes'',
            attr_icon = ''mdi:package-variant'',
            attr_native_value = PStr ''unknown'',
            attr_extra_state_attributes =
              [(''name'', PStr ''Shoes''), (''carrier'', PStr ''Unknown''),
               (''tracking_number'', PStr ''Unknown''), (''status'', PStr ''Unknown''),
               (''last_update'', PStr ''Unknown''), (''estimated_delivery'', PStr ''Unknown''),
               (''from_location'', PStr ''Unknown''), (''to_location'', PStr ''Unknown''),
               (''shipment_id'', PInt 1), (''status_color'', PStr ''grey'')]\<rparr>"
proof -
  let ?kvs = "[(''id'', PInt 1), (''carrier'', PStr ''UPS''), (''tracking_number'', PStr ''1Z999'')]"
  let ?c = "\<lparr>data = [(''1'', PDict ?kvs)], throttle_last = None\<rparr>"
  let ?kvs' = "[(''id'', PInt 1), (''name'', PStr ''Shoes'')]"
  let ?c' = "\<lparr>duc_data = PList [PDict ?kvs'], last_update_success = True\<rparr>"
  let ?sensor = "\<lparr>idx = 0,
            shipment = PDict ?kvs',
            attr_unique_id = ''parcel_delivery_1'',
            attr_name = ''Parcel Delivery Shoes'',
            attr_icon = ''mdi:package-variant'',
            attr_native_value = PStr ''unknown'',
            attr_extra_state_attributes =
              [(''name'', PStr ''Shoes''), (''carrier'', PStr ''Unknown''),
               (''tracking_number'', PStr ''Unknown''), (''status'', PStr ''Unknown''),
               (''last_update'', PStr ''Unknown''), (''estimated_delivery'', PStr ''Unknown''),
               (''from_location'', PStr ''Unknown''), (''to_location'', PStr ''Unknown''),
               (''shipment_id'', PInt 1), (''status_color'', PStr ''grey'')]\<rparr>"
  have m: "map_of (data ?c) ''1'' = Some (PDict ?kvs)"
    by simp
  have i: "ParcelDeliverySensor_init repr_unused ?c' 0 (PDict ?kvs') = Inr ?sensor"
    by code_simp
  have n: "ParcelSensor_init repr_unused ?c ''1'' ''Parcel''
             = Inr \<lparr>parcel_id = ''1'', name = ''Parcel UPS 1Z999'', unique_id = ''parcel_1''\<rparr>"
    by code_simp
  from display_name_of_sensors
         [where coordinator = ?c and pid = "''1''" and kvs = ?kvs and repr = repr_unused
            and name_prefix = "''Parcel''" and coordinator' = ?c' and i = 0 and kvs' = ?kvs'
            and sensor = ?sensor]
       m i n
  show ?thesis by simp
qed

lemma py_getitem_InrD: "py_getitem sh k = Inr v \<Longrightarrow> is_dict sh"
  by (cases sh) (simp_all add: py_getitem_def is_dict_def)

lemma shipments_by_id_dicts:
  "shipments_by_id repr ships acc = Inr m \<Longrightarrow> list_all (\<lambda>kv. is_dict (snd kv)) acc
   \<Longrightarrow> list_all (\<lambda>kv. is_dict (snd kv)) m"
proof (induction ships arbitrary: acc)
  case Nil
  then show ?case by simp
next
  case (Cons sh rest)
  from Cons.prems(1) obtain sid where sid: "py_getitem sh ''id'' = Inr sid"
    and rec: "shipments_by_id repr rest (AList.update (py_str repr sid) sh acc) = Inr m"
    by (cases "py_getitem sh ''id''") simp_all
  have "list_all (\<lambda>kv. is_dict (snd kv)) (AList.update (py_str repr sid) sh acc)"
    unfolding list_all_iff
  proof
    fix kv assume "kv \<in> set (AList.update (py_str repr sid) sh acc)"
    then have "kv = (py_str repr sid, sh) \<or> kv \<in> set acc"
      using set_update_subset [of "py_str repr sid" sh acc] by auto
    then show "is_dict (snd kv)"
      using Cons.prems(2) py_getitem_InrD [OF sid] by (auto simp: list_all_iff)
  qed
  from Cons.IH [OF rec this] show ?case .
qed

lemma async_refresh_body_dicts:
  assumes "async_refresh_body repr fetched self = Inr self'" "dict_values self"
  shows "dict_values self'"
proof (cases fetched)
  case (Inl e)
  with assms show ?thesis
    by (simp add: async_refresh_body_def split: if_splits)
next
  case (Inr resp)
  show ?thesis
  proof (cases "resp_status resp = 200")
    case False
    with Inr assms show ?thesis
      by (cases "resp_text resp") (simp_all add: async_refresh_body_def split: if_splits)
  next
    case True
    let ?run = "ebind (resp_json resp) (\<lambda>d.
                  ebind (py_get d ''shipments'' (PList [])) (\<lambda>v.
                  ebind (py_iter v) (\<lambda>shipments.
                  ebind (shipments_by_id repr shipments []) (\<lambda>m.
                    Inr (self\<lparr>data := m\<rparr>)))))"
    have body: "async_refresh_body repr fetched self =
                  (case ?run of Inl e \<Rightarrow> (if caught e then Inr self else Inl e) | Inr s \<Rightarrow> Inr s)"
      by (simp add: async_refresh_body_def Inr True)
    show ?thesis
    proof (cases ?run)
      case (Inl e)
      with body assms show ?thesis by (simp split: if_splits)
    next
      case run: (Inr s)
      with body assms(1) have s: "s = self'" by simp
      from run obtain shipments m where "shipments_by_id repr shipments [] = Inr m"
        and "s = self\<lparr>data := m\<rparr>"
        by (auto simp: ebind_def split: sum.splits)
      with shipments_by_id_dicts [of repr shipments "[]" m] s show ?thesis
        by (auto simp: dict_values_def)
    qed
  qed
qed

lemma async_refresh_dicts:
  assumes "async_refresh repr fetched now fin self = Inr self'" "dict_values self"
  shows "dict_values self'"
proof (cases "throttle_open self now")
  case False
  with assms show ?thesis by (simp add: async_refresh_throttled)
next
  case True
  with assms(1) obtain s where b: "async_refresh_body repr fetched self = Inr s"
    and s: "self' = s\<lparr>throttle_last := Some fin\<rparr>"
    by (cases "async_refresh_body repr fetched self") (auto simp: async_refresh_open)
  from async_refresh_body_dicts [OF b assms(2)] s show ?thesis
    by (simp add: dict_values_def)
qed

lemma dict_values_lookup:
  "dict_values coordinator \<Longrightarrow> \<exists>kvs. parcel_data coordinator pid = PDict kvs"
proof -
  assume d: "dict_values coordinator"
  show ?thesis
  proof (cases "map_of (data coordinator) pid")
    case None
    then show ?thesis by (simp add: parcel_data_def)
  next
    case (Some sh)
    then have "(pid, sh) \<in> set (data coordinator)" by (rule map_of_SomeD)
    with d have "is_dict sh" by (auto simp: dict_values_def list_all_iff)
    then obtain kvs where "sh = PDict kvs" by (cases sh) (simp_all add: is_dict_def)
    with Some show ?thesis by (simp add: parcel_data_def)
  qed
qed

lemma extra_state_attributes_total:
  "dict_values coordinator \<Longrightarrow> \<exists>attrs. extra_state_attributes coordinator sensor = Inr attrs"
proof -
  assume "dict_values coordinator"
  from dict_values_lookup [OF this, of "parcel_id sensor"] obtain kvs where
    "parcel_data coordinator (parcel_id sensor) = PDict kvs" by blast
  then show ?thesis
    by (simp add: extra_state_attributes_def Let_def py_in_def)
qed

lemma update_attributes_fields:
  assumes len: "py_len (duc_data coordinator) = Inr n"
    and at: "(if idx self < n then py_index (duc_data coordinator) (idx self) else Inr (PDict []))
               = Inr (PDict kvs)"
    and carrier: "dict_get kvs ''carrier'' (PDict []) = PDict ckvs"
    and status: "dict_get kvs ''status'' (PStr []) = PStr st"
  shows "\<exists>self'. update_attributes coordinator self = Inr self'
           \<and> attr_native_value self' = dict_get kvs ''status'' (PStr ''unknown'')
           \<and> (\<forall>k\<in>set [''name'', ''tracking_number'', ''status'', ''last_update'',
                         ''estimated_delivery'', ''from_location'', ''to_location''].
                 map_of (attr_extra_state_attributes self') k = Some (dict_get kvs k (PStr ''Unknown'')))
           \<and> map_of (attr_extra_state_attributes self') ''carrier''
               = Some (dict_get ckvs ''name'' (PStr ''Unknown''))
           \<and> map_of (attr_extra_state_attributes self') ''shipment_id''
               = Some (dict_get kvs ''id'' (PStr ''Unknown''))
           \<and> map_of (attr_extra_state_attributes self') ''status_color''
               = Some (PStr (status_color st))"
  by (simp add: update_attributes_dict [OF len at carrier status])

lemma status_color_empty: "status_color [] = ''grey''"
  by code_simp

lemma extra_state_attributes_present:
  assumes "map_of (data pdc) (parcel_id sensor) = Some (PDict rec)" "rec \<noteq> []"
  shows "\<exists>attrs. extra_state_attributes pdc sensor = Inr attrs
           \<and> (\<forall>k\<in>set [''carrier'', ''tracking_number'', ''status'', ''status_description'',
                         ''estimated_delivery'', ''last_update''].
                 map_of attrs k = Some (dict_get rec k PNone)
                 \<and> (map_of rec k = None \<longrightarrow> map_of attrs k = Some PNone))"
proof -
  let ?tail = "(if map_of rec ''location'' \<noteq> None
                then [(''location'', dict_get rec ''location'' PNone)] else [])
               @ (if map_of rec ''tracking_history'' \<noteq> None
                  then [(''tracking_history'', dict_get rec ''tracking_history'' PNone)] else [])"
  let ?attrs = "[(''carrier'', dict_get rec ''carrier'' PNone),
                 (''tracking_number'', dict_get rec ''tracking_number'' PNone),
                 (''status'', dict_get rec ''status'' PNone),
                 (''status_description'', dict_get rec ''status_description'' PNone),
                 (''estimated_delivery'', dict_get rec ''estimated_delivery'' PNone),
                 (''last_update'', dict_get rec ''last_update'' PNone)] @ ?tail"
  have pd: "parcel_data pdc (parcel_id sensor) = PDict rec"
    by (simp add: parcel_data_def assms(1))
  have run: "extra_state_attributes pdc sensor = Inr ?attrs"
    by (simp add: extra_state_attributes_def Let_def pd py_truthy_def py_in_def assms(2))
  have each: "\<forall>k\<in>set [''carrier'', ''tracking_number'', ''status'', ''status_description'',
                         ''estimated_delivery'', ''last_update''].
                 map_of ?attrs k = Some (dict_get rec k PNone)
                 \<and> (map_of rec k = None \<longrightarrow> map_of ?attrs k = Some PNone)"
    by (simp add: dict_get_def)
  from run each show ?thesis
    by (intro exI [of _ ?attrs] conjI)
qed

section \<open>Reading a sensor\<close>

text \<open>
  C10 as stated fails. A shipment record that lacks \<open>status\<close> and whose \<open>carrier\<close> is
  the string UPS makes \<open>update_attributes\<close> raise \<open>AttributeError\<close> instead of
  returning the fallback state. And the attributes of the platform module's sensor do not
  default to \<open>Unknown\<close>: a missing field of a present shipment reads as \<open>None\<close>.
\<close>

theorem sensor_read_counterexample:
  "update_attributes
     \<lparr>duc_data = PList [PDict [(''id'', PInt 1), (''carrier'', PStr ''UPS'')]],
      last_update_success = True\<rparr>
     \<lparr>idx = 0,
      shipment = PDict [(''id'', PInt 1)],
      attr_unique_id = ''parcel_delivery_1'',
      attr_name = ''Parcel Delivery #1'',
      attr_icon = ''mdi:package-variant'',
      attr_native_value = PStr ''unknown'',
      attr_extra_state_attributes =
        [(''name'', PStr ''Unknown''), (''carrier'', PStr ''Unknown''),
         (''tracking_number'', PStr ''Unknown''), (''status'', PStr ''Unknown''),
         (''last_update'', PStr ''Unknown''), (''estimated_delivery'', PStr ''Unknown''),
         (''from_location'', PStr ''Unknown''), (''to_location'', PStr ''Unknown''),
         (''shipment_id'', PInt 1), (''status_color'', PStr ''grey'')]\<rparr>
     = Inl AttributeError
   \<and> extra_state_attributes
       \<lparr>data = [(''1'', PDict [(''id'', PInt 1), (''carrier'', PStr ''UPS'')])],
        throttle_last = Some 1\<rparr>
       \<lparr>parcel_id = ''1'', name = ''Parcel UPS '', unique_id = ''parcel_1''\<rparr>
     = Inr [(''carrier'', PStr ''UPS''), (''tracking_number'', PNone), (''status'', PNone),
            (''status_description'', PNone), (''estimated_delivery'', PNone),
            (''last_update'', PNone)]"
  by (intro conjI; code_simp)

text \<open>
  C10, amended. Reading a \<open>ParcelDeliverySensor\<close> returns instead of raising when its
  index is out of range, with the state \<open>unknown\<close>, every attribute \<open>Unknown\<close> and the
  colour grey; and when its index holds a shipment record whose carrier, if present, is an
  object and whose status, if present, is a string, with the state and every attribute
  read from the record, a missing field giving \<open>unknown\<close> for the state and \<open>Unknown\<close>
  for an attribute. Reading the state and the attributes of a \<open>ParcelSensor\<close> returns
  instead of raising in every state the coordinator reaches from its start by refreshes:
  the state is \<open>unknown\<close> when the id or the status is missing, the attributes are
  empty when the id is missing, and a field missing from a present shipment reads as
  \<open>None\<close>.
\<close>

theorem sensor_read_falls_back:
  "(py_len (duc_data coordinator) = Inr n \<and> n \<le> idx self \<longrightarrow>
      update_attributes coordinator self =
        Inr (self\<lparr>attr_native_value := PStr ''unknown'',
                   attr_extra_state_attributes :=
                     [(''name'', PStr ''Unknown''), (''carrier'', PStr ''Unknown''),
                      (''tracking_number'', PStr ''Unknown''), (''status'', PStr ''Unknown''),
                      (''last_update'', PStr ''Unknown''), (''estimated_delivery'', PStr ''Unknown''),
                      (''from_location'', PStr ''Unknown''), (''to_location'', PStr ''Unknown''),
                      (''shipment_id'', PStr ''Unknown''), (''status_color'', PStr ''grey'')]\<rparr>))
   \<and> (duc_data coordinator = PList ships \<and> idx self < length ships
        \<and> ships ! idx self = PDict kvs
        \<and> dict_get kvs ''carrier'' (PDict []) = PDict ckvs
        \<and> dict_get kvs ''status'' (PStr []) = PStr st \<longrightarrow>
        (\<exists>self'. update_attributes coordinator self = Inr self'
           \<and> attr_native_value self' = dict_get kvs ''status'' (PStr ''unknown'')
           \<and> (map_of kvs ''status'' = None \<longrightarrow> attr_native_value self' = PStr ''unknown'')
           \<and> (\<forall>k\<in>set [''name'', ''tracking_number'', ''status'', ''last_update'',
                         ''estimated_delivery'', ''from_location'', ''to_location''].
                 map_of (attr_extra_state_attributes self') k = Some (dict_get kvs k (PStr ''Unknown''))
                 \<and> (map_of kvs k = None \<longrightarrow>
                      map_of (attr_extra_state_attributes self') k = Some (PStr ''Unknown'')))
           \<and> map_of (attr_extra_state_attributes self') ''carrier''
               = Some (dict_get ckvs ''name'' (PStr ''Unknown''))
           \<and> map_of (attr_extra_state_attributes self') ''shipment_id''
               = Some (dict_get kvs ''id'' (PStr ''Unknown''))
           \<and> map_of (attr_extra_state_attributes self') ''status_color''
               = Some (PStr (status_color st))))
   \<and> dict_values ParcelDataCoordinator_init
   \<and> (dict_values pdc \<and> async_refresh repr fetched now fin pdc = Inr pdc' \<longrightarrow> dict_values pdc')
   \<and> (dict_values pdc \<longrightarrow>
        (\<exists>v. state pdc sensor = Inr v)
        \<and> (\<exists>attrs. extra_state_attributes pdc sensor = Inr attrs)
        \<and> (map_of (data pdc) (parcel_id sensor) = None \<longrightarrow>
             state pdc sensor = Inr (PStr ''unknown'')
             \<and> extra_state_attributes pdc sensor = Inr [])
        \<and> (\<forall>rec. map_of (data pdc) (parcel_id sensor) = Some (PDict rec) \<longrightarrow>
             state pdc sensor = Inr (dict_get rec ''status'' (PStr ''unknown''))
             \<and> (map_of rec ''status'' = None \<longrightarrow> state pdc sensor = Inr (PStr ''unknown''))))
   \<and> (\<forall>rec. map_of (data pdc) (parcel_id sensor) = Some (PDict rec) \<and> rec \<noteq> [] \<longrightarrow>
        (\<exists>attrs. extra_state_attributes pdc sensor = Inr attrs
           \<and> (\<forall>k\<in>set [''carrier'', ''tracking_number'', ''status'', ''status_description'',
                         ''estimated_delivery'', ''last_update''].
                 map_of attrs k = Some (dict_get rec k PNone)
                 \<and> (map_of rec k = None \<longrightarrow> map_of attrs k = Some PNone))))"
proof (intro conjI impI)
  assume a: "py_len (duc_data coordinator) = Inr n \<and> n \<le> idx self"
  then have len: "py_len (duc_data coordinator) = Inr n" by simp
  from a have at: "(if idx self < n then py_index (duc_data coordinator) (idx self)
                    else Inr (PDict [])) = Inr (PDict [])"
    by simp
  have c: "dict_get [] ''carrier'' (PDict []) = PDict []" by (simp add: dict_get_def)
  have s: "dict_get [] ''status'' (PStr []) = PStr []" by (simp add: dict_get_def)
  show "update_attributes coordinator self =
        Inr (self\<lparr>attr_native_value := PStr ''unknown'',
                   attr_extra_state_attributes :=
                     [(''name'', PStr ''Unknown''), (''carrier'', PStr ''Unknown''),
                      (''tracking_number'', PStr ''Unknown''), (''status'', PStr ''Unknown''),
                      (''last_update'', PStr ''Unknown''), (''estimated_delivery'', PStr ''Unknown''),
                      (''from_location'', PStr ''Unknown''), (''to_location'', PStr ''Unknown''),
                      (''shipment_id'', PStr ''Unknown''), (''status_color'', PStr ''grey'')]\<rparr>)"
    by (simp add: update_attributes_dict [OF len at c s] dict_get_def status_color_empty)
next
  assume a: "duc_data coordinator = PList ships \<and> idx self < length ships
        \<and> ships ! idx self = PDict kvs
        \<and> dict_get kvs ''carrier'' (PDict []) = PDict ckvs
        \<and> dict_get kvs ''status'' (PStr []) = PStr st"
  then have len: "py_len (duc_data coordinator) = Inr (length ships)"
    by (simp add: py_len_def)
  from a have at: "(if idx self < length ships then py_index (duc_data coordinator) (idx self)
                    else Inr (PDict [])) = Inr (PDict kvs)"
    by (simp add: py_index_def)
  from a have c: "dict_get kvs ''carrier'' (PDict []) = PDict ckvs"
    and s: "dict_get kvs ''status'' (PStr []) = PStr st" by simp_all
  from update_attributes_fields [OF len at c s] obtain self' where
    u: "update_attributes coordinator self = Inr self'"
    and nv: "attr_native_value self' = dict_get kvs ''status'' (PStr ''unknown'')"
    and fs: "\<forall>k\<in>set [''name'', ''tracking_number'', ''status'', ''last_update'',
                         ''estimated_delivery'', ''from_location'', ''to_location''].
                 map_of (attr_extra_state_attributes self') k = Some (dict_get kvs k (PStr ''Unknown''))"
    and ca: "map_of (attr_extra_state_attributes self') ''carrier''
               = Some (dict_get ckvs ''name'' (PStr ''Unknown''))"
    and si: "map_of (attr_extra_state_attributes self') ''shipment_id''
               = Some (dict_get kvs ''id'' (PStr ''Unknown''))"
    and co: "map_of (attr_extra_state_attributes self') ''status_color''
               = Some (PStr (status_color st))"
    by blast
  have nv': "map_of kvs ''status'' = None \<longrightarrow> attr_native_value self' = PStr ''unknown''"
    by (simp add: nv dict_get_def)
  have fs': "\<forall>k\<in>set [''name'', ''tracking_number'', ''status'', ''last_update'',
                         ''estimated_delivery'', ''from_location'', ''to_location''].
                 map_of (attr_extra_state_attributes self') k = Some (dict_get kvs k (PStr ''Unknown''))
                 \<and> (map_of kvs k = None \<longrightarrow>
                      map_of (attr_extra_state_attributes self') k = Some (PStr ''Unknown''))"
  proof
    fix k
    assume k: "k \<in> set [''name'', ''tracking_number'', ''status'', ''last_update'',
                         ''estimated_delivery'', ''from_location'', ''to_location'']"
    from fs k have e: "map_of (attr_extra_state_attributes self') k = Some (dict_get kvs k (PStr ''Unknown''))"
      by (rule bspec)
    then show "map_of (attr_extra_state_attributes self') k = Some (dict_get kvs k (PStr ''Unknown''))
                 \<and> (map_of kvs k = None \<longrightarrow>
                      map_of (attr_extra_state_attributes self') k = Some (PStr ''Unknown''))"
      by (simp add: dict_get_def)
  qed
  show "\<exists>self'. update_attributes coordinator self = Inr self'
           \<and> attr_native_value self' = dict_get kvs ''status'' (PStr ''unknown'')
           \<and> (map_of kvs ''status'' = None \<longrightarrow> attr_native_value self' = PStr ''unknown'')
           \<and> (\<forall>k\<in>set [''name'', ''tracking_number'', ''status'', ''last_update'',
                         ''estimated_delivery'', ''from_location'', ''to_location''].
                 map_of (attr_extra_state_attributes self') k = Some (dict_get kvs k (PStr ''Unknown''))
                 \<and> (map_of kvs k = None \<longrightarrow>
                      map_of (attr_extra_state_attributes self') k = Some (PStr ''Unknown'')))
           \<and> map_of (attr_extra_state_attributes self') ''carrier''
               = Some (dict_get ckvs ''name'' (PStr ''Unknown''))
           \<and> map_of (attr_extra_state_attributes self') ''shipment_id''
               = Some (dict_get kvs ''id'' (PStr ''Unknown''))
           \<and> map_of (attr_extra_state_attributes self') ''status_color''
               = Some (PStr (status_color st))"
    by (intro exI [of _ self'] conjI) (rule u nv nv' fs' ca si co)+
next
  show "dict_values ParcelDataCoordinator_init"
    by (simp add: dict_values_def ParcelDataCoordinator_init_def)
next
  assume "dict_values pdc \<and> async_refresh repr fetched now fin pdc = Inr pdc'"
  then have "async_refresh repr fetched now fin pdc = Inr pdc'" and "dict_values pdc"
    by simp_all
  then show "dict_values pdc'"
    by (rule async_refresh_dicts)
next
  assume d: "dict_values pdc"
  from dict_values_lookup [OF d, of "parcel_id sensor"]
  show "\<exists>v. state pdc sensor = Inr v"
    by (auto simp: state_def)
next
  assume d: "dict_values pdc"
  show "\<exists>attrs. extra_state_attributes pdc sensor = Inr attrs"
    by (rule extra_state_attributes_total [OF d])
next
  assume "map_of (data pdc) (parcel_id sensor) = None"
  from state_absent [OF this] show "state pdc sensor = Inr (PStr ''unknown'')" by simp
next
  assume "map_of (data pdc) (parcel_id sensor) = None"
  from state_absent [OF this] show "extra_state_attributes pdc sensor = Inr []" by simp
next
  show "\<forall>rec. map_of (data pdc) (parcel_id sensor) = Some (PDict rec) \<longrightarrow>
             state pdc sensor = Inr (dict_get rec ''status'' (PStr ''unknown''))
             \<and> (map_of rec ''status'' = None \<longrightarrow> state pdc sensor = Inr (PStr ''unknown''))"
    by (simp add: state_def parcel_data_def dict_get_def)
next
  show "\<forall>rec. map_of (data pdc) (parcel_id sensor) = Some (PDict rec) \<and> rec \<noteq> [] \<longrightarrow>
        (\<exists>attrs. extra_state_attributes pdc sensor = Inr attrs
           \<and> (\<forall>k\<in>set [''carrier'', ''tracking_number'', ''status'', ''status_description'',
                         ''estimated_delivery'', ''last_update''].
                 map_of attrs k = Some (dict_get rec k PNone)
                 \<and> (map_of rec k = None \<longrightarrow> map_of attrs k = Some PNone)))"
  proof (intro allI impI)
    fix rec
    assume "map_of (data pdc) (parcel_id sensor) = Some (PDict rec) \<and> rec \<noteq> []"
    then have "map_of (data pdc) (parcel_id sensor) = Some (PDict rec)" and "rec \<noteq> []"
      by simp_all
    then show "\<exists>attrs. extra_state_attributes pdc sensor = Inr attrs
           \<and> (\<forall>k\<in>set [''carrier'', ''tracking_number'', ''status'', ''status_description'',
                         ''estimated_delivery'', ''last_update''].
                 map_of attrs k = Some (dict_get rec k PNone)
                 \<and> (map_of rec k = None \<longrightarrow> map_of attrs k = Some PNone))"
      by (rule extra_state_attributes_present)
  qed
qed

theorem sensor_read_falls_back_witness:
  "py_len (duc_data \<lparr>duc_data = PList [PDict [(''id'', PInt 1), (''carrier'', PDict [(''name'', PStr ''UPS'')])]],
                     last_update_success = True\<rparr>) = Inr 1
   \<and> attr_native_value
        (projr (update_attributes
           \<lparr>duc_data = PList [PDict [(''id'', PInt 1), (''carrier'', PDict [(''name'', PStr ''UPS'')])]],
            last_update_success = True\<rparr>
           \<lparr>idx = 1, shipment = PDict [(''id'', PInt 2)],
            attr_unique_id = ''parcel_delivery_2'', attr_name = ''Parcel Delivery #2'',
            attr_icon = ''mdi:package-variant'', attr_native_value = PStr ''delivered'',
            attr_extra_state_attributes = []\<rparr>))
       = PStr ''unknown''
   \<and> (\<exists>self'. update_attributes
           \<lparr>duc_data = PList [PDict [(''id'', PInt 1), (''carrier'', PDict [(''name'', PStr ''UPS'')])]],
            last_update_success = True\<rparr>
           \<lparr>idx = 0, shipment = PDict [(''id'', PInt 1)],
            attr_unique_id = ''parcel_delivery_1'', attr_name = ''Parcel Delivery #1'',
            attr_icon = ''mdi:package-variant'', attr_native_value = PStr ''delivered'',
            attr_extra_state_attributes = []\<rparr> = Inr self'
         \<and> attr_native_value self' = PStr ''unknown''
         \<and> map_of (attr_extra_state_attributes self') ''tracking_number'' = Some (PStr ''Unknown'')
         \<and> map_of (attr_extra_state_attributes self') ''carrier'' = Some (PStr ''UPS''))
   \<and> dict_values \<lparr>data = [(''1'', PDict [(''id'', PInt 1)])], throttle_last = None\<rparr>
   \<and> state \<lparr>data = [(''1'', PDict [(''id'', PInt 1)])], throttle_last = None\<rparr>
         \<lparr>parcel_id = ''42'', name = ''Parcel  '', unique_id = ''parcel_42''\<rparr>
       = Inr (PStr ''unknown'')
   \<and> state \<lparr>data = [(''1'', PDict [(''id'', PInt 1)])], throttle_last = None\<rparr>
         \<lparr>parcel_id = ''1'', name = ''Parcel  '', unique_id = ''parcel_1''\<rparr>
       = Inr (PStr ''unknown'')
   \<and> dict_values \<lparr>data = [(''7'', PDict [(''id'', PInt 7)])], throttle_last = Some 1\<rparr>"
proof -
  let ?kvs = "[(''id'', PInt 1), (''carrier'', PDict [(''name'', PStr ''UPS'')])]"
  let ?c = "\<lparr>duc_data = PList [PDict ?kvs], last_update_success = True\<rparr>"
  let ?far = "\<lparr>idx = 1, shipment = PDict [(''id'', PInt 2)],
            attr_unique_id = ''parcel_delivery_2'', attr_name = ''Parcel Delivery #2'',
            attr_icon = ''mdi:package-variant'', attr_native_value = PStr ''delivered'',
            attr_extra_state_attributes = []\<rparr>"
  let ?near = "\<lparr>idx = 0, shipment = PDict [(''id'', PInt 1)],
            attr_unique_id = ''parcel_delivery_1'', attr_name = ''Parcel Delivery #1'',
            attr_icon = ''mdi:package-variant'', attr_native_value = PStr ''delivered'',
            attr_extra_state_attributes = []\<rparr>"
  let ?pdc = "\<lparr>data = [(''1'', PDict [(''id'', PInt 1)])], throttle_last = None\<rparr>"
  let ?pdc' = "\<lparr>data = [(''7'', PDict [(''id'', PInt 7)])], throttle_last = Some 1\<rparr>"
  let ?f = "Inr \<lparr>resp_status = 200,
                 resp_json = Inr (PDict [(''shipments'', PList [PDict [(''id'', PInt 7)]])]),
                 resp_text = Inr []\<rparr>"
  let ?gone = "\<lparr>parcel_id = ''42'', name = ''Parcel  '', unique_id = ''parcel_42''\<rparr>"
  let ?here = "\<lparr>parcel_id = ''1'', name = ''Parcel  '', unique_id = ''parcel_1''\<rparr>"
  have len: "py_len (duc_data ?c) = Inr 1" by (simp add: py_len_def)
  have far: "(1::nat) \<le> idx ?far" by simp
  have near: "duc_data ?c = PList [PDict ?kvs] \<and> idx ?near < length [PDict ?kvs]
        \<and> [PDict ?kvs] ! idx ?near = PDict ?kvs
        \<and> dict_get ?kvs ''carrier'' (PDict []) = PDict [(''name'', PStr ''UPS'')]
        \<and> dict_get ?kvs ''status'' (PStr []) = PStr []"
    by (simp add: dict_get_def)
  have d: "dict_values ?pdc" by (simp add: dict_values_def is_dict_def)
  have r: "async_refresh repr_unused ?f 0 1 ?pdc = Inr ?pdc'" by code_simp
  have g: "map_of (data ?pdc) (parcel_id ?gone) = None" by simp
  have h: "map_of (data ?pdc) (parcel_id ?here) = Some (PDict [(''id'', PInt 1)])" by simp
  have n: "map_of [(''id'', PInt 1)] ''status'' = None" by simp
  have t: "map_of ?kvs ''tracking_number'' = None" by simp
  have cn: "dict_get [(''name'', PStr ''UPS'')] ''name'' (PStr ''Unknown'') = PStr ''UPS''"
    by (simp add: dict_get_def)
  note A = sensor_read_falls_back
             [where coordinator = ?c and n = 1 and self = ?far and pdc = ?pdc and sensor = ?gone
                and repr = repr_unused and fetched = ?f and now = 0 and fin = 1 and pdc' = ?pdc']
  note B = sensor_read_falls_back
             [where coordinator = ?c and self = ?near and ships = "[PDict ?kvs]" and kvs = ?kvs
                and ckvs = "[(''name'', PStr ''UPS'')]" and st = "[]" and pdc = ?pdc
                and sensor = ?here]
  from A len far have 1: "attr_native_value (projr (update_attributes ?c ?far)) = PStr ''unknown''"
    by simp
  from B near obtain self' where u: "update_attributes ?c ?near = Inr self'"
    and u1: "attr_native_value self' = dict_get ?kvs ''status'' (PStr ''unknown'')"
    and u2: "\<forall>k\<in>set [''name'', ''tracking_number'', ''status'', ''last_update'',
                         ''estimated_delivery'', ''from_location'', ''to_location''].
                 map_of (attr_extra_state_attributes self') k = Some (dict_get ?kvs k (PStr ''Unknown''))
                 \<and> (map_of ?kvs k = None \<longrightarrow>
                      map_of (attr_extra_state_attributes self') k = Some (PStr ''Unknown''))"
    and u3: "map_of (attr_extra_state_attributes self') ''carrier''
               = Some (dict_get [(''name'', PStr ''UPS'')] ''name'' (PStr ''Unknown''))"
    by blast
  have 2: "\<exists>self'. update_attributes ?c ?near = Inr self'
         \<and> attr_native_value self' = PStr ''unknown''
         \<and> map_of (attr_extra_state_attributes self') ''tracking_number'' = Some (PStr ''Unknown'')
         \<and> map_of (attr_extra_state_attributes self') ''carrier'' = Some (PStr ''UPS'')"
  proof (intro exI [of _ self'] conjI)
    show "update_attributes ?c ?near = Inr self'" by (rule u)
    show "attr_native_value self' = PStr ''unknown''" by (simp add: u1 dict_get_def)
    from u2 have "map_of (attr_extra_state_attributes self') ''tracking_number''
                    = Some (dict_get ?kvs ''tracking_number'' (PStr ''Unknown''))"
      by simp
    then show "map_of (attr_extra_state_attributes self') ''tracking_number'' = Some (PStr ''Unknown'')"
      by (simp add: dict_get_def)
    show "map_of (attr_extra_state_attributes self') ''carrier'' = Some (PStr ''UPS'')"
      by (simp add: u3 cn)
  qed
  from A d g have 3: "state ?pdc ?gone = Inr (PStr ''unknown'')" by blast
  from B d h n have 4: "state ?pdc ?here = Inr (PStr ''unknown'')" by blast
  from A d r have 5: "dict_values ?pdc'" by blast
  from len 1 2 d 3 4 5 show ?thesis by (intro conjI)
qed

end
